theory Spec2Isabelle
  imports Complex_Main "HOL-Library.AList"
begin

section \<open>Data model of the round coordinator (server/server.py)\<close>

text \<open>
  Modelled from the spec: the enumerations \<open>ClientTrainingStatus\<close>, \<open>ServerStatus\<close> and
  \<open>TrainingType\<close> and the class \<open>TrainingClient\<close> are imported by server.py from modules
  that are not part of the sources; their members are the names server.py uses.
  \<open>ClientTrainingStatus.IDLE\<close> is written \<open>CLIENT_IDLE\<close> to keep it apart from
  \<open>ServerStatus.IDLE\<close>. The training type reaches the server as a JSON value, so a value
  outside the four table entries is possible: \<open>OTHER\<close>.
\<close>

datatype client_training_status =
  CLIENT_IDLE | TRAINING_REQUESTED | TRAINING_FINISHED | TRAINING_REQUEST_ERROR

datatype server_status = IDLE | CLIENTS_TRAINING | UPDATING_MODEL_PARAMS

datatype training_type =
  MNIST | DETERMINISTIC_MNIST | GOSSIP_MNIST | CHEST_X_RAY_PNEUMONIA | OTHER string

text \<open>
  The data model is parametric in the type \<open>'t\<close> of tensors; what the tensor libraries
  compute on them is a parameter of the aggregation (\<open>tensor_library\<close> below).
  A parameter set is the weight/bias pair of the MNIST variants or the single weight array
  of the chest X-ray variant.

  For evaluation at concrete inputs \<open>tensor\<close> is an idealised tensor: the list of its
  entries, as real numbers.
\<close>

type_synonym tensor = "real list"

datatype 't params = WeightsBias 't 't | Weights 't

datatype py_error =
  AttributeError | KeyError | RuntimeError | TypeError | ValueError | ClientConnectionError

record 't training_client =
  client_url :: string
  client_id :: nat
  status :: client_training_status
  model_params :: "'t params option"

type_synonym 't registry = "(string \<times> 't training_client) list"

text \<open>
  \<open>Server.training_clients\<close> is a Python dict: an association list in insertion order
  with one entry per key. The field \<open>Server.status\<close> is \<open>server_status\<close> here and
  \<open>Server.round\<close> is \<open>round_n\<close>.
\<close>

record 't server =
  mnist_model_params :: "'t params option"
  chest_x_ray_model_params :: "'t params option"
  training_clients :: "'t registry"
  server_status :: server_status
  round_n :: nat

text \<open>\<open>Server.__init__\<close>; the random initial MNIST weights and bias are parameters.\<close>

definition init_server :: "tensor \<Rightarrow> tensor \<Rightarrow> tensor server" where
  "init_server weights bias =
     \<lparr>mnist_model_params = Some (WeightsBias weights bias),
      chest_x_ray_model_params = None,
      training_clients = [],
      server_status = IDLE,
      round_n = 0\<rparr>"

text \<open>Modelled from the spec: \<open>TrainingClient(client_url, client_id)\<close> starts idle with no
  reported parameters.\<close>

definition new_training_client :: "string \<Rightarrow> nat \<Rightarrow> tensor training_client" where
  "new_training_client url cid =
     \<lparr>client_url = url, client_id = cid, status = CLIENT_IDLE, model_params = None\<rparr>"

text \<open>Assignment to the \<open>status\<close> attribute of the client object registered under a url.\<close>

definition set_client_status :: "string \<Rightarrow> client_training_status \<Rightarrow> tensor server \<Rightarrow> tensor server" where
  "set_client_status url st s =
     s\<lparr>training_clients := AList.map_entry url (\<lambda>c. c\<lparr>status := st\<rparr>) (training_clients s)\<rparr>"

section \<open>Participant registry\<close>

definition register_client :: "string \<Rightarrow> tensor server \<Rightarrow> tensor server" where
  "register_client url s =
     (case map_of (training_clients s) url of
        None \<Rightarrow>
          (let next_client_id = length (training_clients s) + 1
           in s\<lparr>training_clients :=
                  AList.update url (new_training_client url next_client_id) (training_clients s)\<rparr>)
      | Some c \<Rightarrow> set_client_status url CLIENT_IDLE s)"

definition unregister_client :: "string \<Rightarrow> tensor server \<Rightarrow> tensor server" where
  "unregister_client url s = s\<lparr>training_clients := AList.delete url (training_clients s)\<rparr>"

fun can_do_training_loop :: "tensor registry \<Rightarrow> bool" where
  "can_do_training_loop [] = True"
| "can_do_training_loop ((u, c) # cs) =
     (if status c \<noteq> CLIENT_IDLE \<and> status c \<noteq> TRAINING_REQUEST_ERROR then False
      else can_do_training_loop cs)"

definition can_do_training :: "tensor server \<Rightarrow> bool" where
  "can_do_training s = can_do_training_loop (training_clients s)"

section \<open>Aggregation engine\<close>

fun can_update_loop :: "'t registry \<Rightarrow> bool" where
  "can_update_loop [] = True"
| "can_update_loop ((u, c) # cs) =
     (if status c \<noteq> TRAINING_FINISHED \<and> status c \<noteq> TRAINING_REQUEST_ERROR then False
      else can_update_loop cs)"

definition can_update_central_model_params :: "'t server \<Rightarrow> bool" where
  "can_update_central_model_params s = can_update_loop (training_clients s)"

subsection \<open>The aggregation, for any tensor library\<close>

text \<open>
  What \<open>Server.update_server_model_params\<close> asks of torch and numpy. Each operation
  returns a tensor or raises; shapes, element types and floating-point rounding are the
  library's business.
  \<^item> \<open>torch_stack_mean ts\<close> is \<open>torch.stack(ts).mean(0)\<close>;
  \<^item> \<open>np_stack_mean ps\<close> is \<open>np.stack(ps).mean(0)\<close> on the list of whatever the finished
    records hold;
  \<^item> \<open>array_subscript t i\<close> is \<open>t[i]\<close> on a single array.
\<close>

record 't tensor_library =
  torch_stack_mean :: "'t list \<Rightarrow> py_error + 't"
  np_stack_mean :: "'t params option list \<Rightarrow> py_error + 't"
  array_subscript :: "'t \<Rightarrow> nat \<Rightarrow> py_error + 't"

text \<open>
  \<open>training_client.model_params[0]\<close> and \<open>training_client.model_params[1]\<close> (lines
  162-163): the components of a pair, a \<open>TypeError\<close> on \<open>None\<close>, the library's
  subscript on a single array.
\<close>

definition weights_and_bias :: "'t tensor_library \<Rightarrow> 't params option \<Rightarrow> py_error + ('t \<times> 't)" where
  "weights_and_bias lib p =
     (case p of
        None \<Rightarrow> Inl TypeError
      | Some (WeightsBias w b) \<Rightarrow> Inr (w, b)
      | Some (Weights t) \<Rightarrow>
          (case array_subscript lib t 0 of
             Inl e \<Rightarrow> Inl e
           | Inr w \<Rightarrow>
               (case array_subscript lib t 1 of
                  Inl e \<Rightarrow> Inl e
                | Inr b \<Rightarrow> Inr (w, b))))"

text \<open>
  The collecting loop of the MNIST branch (lines 160-164). When a subscript raises, the
  clients before it have been reset to idle and the one at hand has not. The result
  carries the registry as the loop leaves it.
\<close>

fun collect_mnist_with ::
  "'t tensor_library \<Rightarrow> 't registry \<Rightarrow>
     (py_error \<times> 't registry) + ('t list \<times> 't list \<times> 't registry)" where
  "collect_mnist_with lib [] = Inr ([], [], [])"
| "collect_mnist_with lib ((u, c) # cs) =
     (if status c = TRAINING_FINISHED then
        (case weights_and_bias lib (model_params c) of
           Inl e \<Rightarrow> Inl (e, (u, c) # cs)
         | Inr (w, b) \<Rightarrow>
             (case collect_mnist_with lib cs of
                Inl (e, cs') \<Rightarrow> Inl (e, (u, c\<lparr>status := CLIENT_IDLE\<rparr>) # cs')
              | Inr (ws, bs, cs') \<Rightarrow> Inr (w # ws, b # bs, (u, c\<lparr>status := CLIENT_IDLE\<rparr>) # cs')))
      else
        (case collect_mnist_with lib cs of
           Inl (e, cs') \<Rightarrow> Inl (e, (u, c) # cs')
         | Inr (ws, bs, cs') \<Rightarrow> Inr (ws, bs, (u, c) # cs')))"

text \<open>
  The collecting loop of the chest X-ray branch (lines 171-174): it resets the status first
  and appends whatever the record holds, so it cannot fail.
\<close>

fun collect_chest :: "'t registry \<Rightarrow> 't params option list \<times> 't registry" where
  "collect_chest [] = ([], [])"
| "collect_chest ((u, c) # cs) =
     (case collect_chest cs of
        (ps, cs') \<Rightarrow>
          if status c = TRAINING_FINISHED
          then (model_params c # ps, (u, c\<lparr>status := CLIENT_IDLE\<rparr>) # cs')
          else (ps, (u, c) # cs'))"

definition update_server_model_params_with ::
  "'t tensor_library \<Rightarrow> training_type \<Rightarrow> 't server \<Rightarrow> (py_error \<times> 't server) + 't server" where
  "update_server_model_params_with lib training_type s =
     (if can_update_central_model_params s then
        (let s1 = s\<lparr>server_status := UPDATING_MODEL_PARAMS\<rparr> in
         if training_type = MNIST \<or> training_type = DETERMINISTIC_MNIST then
           (case collect_mnist_with lib (training_clients s1) of
              Inl (e, cs) \<Rightarrow> Inl (e, s1\<lparr>training_clients := cs\<rparr>)
            | Inr (received_weights, received_biases, cs) \<Rightarrow>
                (let s2 = s1\<lparr>training_clients := cs\<rparr> in
                 case torch_stack_mean lib received_weights of
                   Inl e \<Rightarrow> Inl (e, s2)
                 | Inr new_weights \<Rightarrow>
                     (case torch_stack_mean lib received_biases of
                        Inl e \<Rightarrow> Inl (e, s2)
                      | Inr new_bias \<Rightarrow>
                          Inr (s2\<lparr>mnist_model_params := Some (WeightsBias new_weights new_bias),
                                  server_status := IDLE\<rparr>))))
         else if training_type = CHEST_X_RAY_PNEUMONIA then
           (case collect_chest (training_clients s1) of
              (received_weights, cs) \<Rightarrow>
                (let s2 = s1\<lparr>training_clients := cs\<rparr> in
                 case np_stack_mean lib received_weights of
                   Inl e \<Rightarrow> Inl (e, s2)
                 | Inr new_weights \<Rightarrow>
                     Inr (s2\<lparr>chest_x_ray_model_params := Some (Weights new_weights),
                             server_status := IDLE\<rparr>)))
         else Inr (s1\<lparr>server_status := IDLE\<rparr>))
      else Inr s)"

subsection \<open>The aggregation with an idealised library\<close>

text \<open>
  To evaluate the coordinator at concrete inputs, the library is idealised on tensors given
  as lists of reals: the stacked mean is the exact elementwise mean of a non-empty list of
  tensors of one length, and raises otherwise (\<open>None\<close> here; the caller names the
  exception). This agrees with torch and numpy on the empty list, where both raise, and on
  a single tensor, whose mean is the tensor itself; beyond that it ignores rounding and
  the shape of a tensor apart from its number of entries.
\<close>

definition stack_mean :: "tensor list \<Rightarrow> tensor option" where
  "stack_mean ts =
     (case ts of
        [] \<Rightarrow> None
      | t # _ \<Rightarrow>
          if list_all (\<lambda>u. length u = length t) ts
          then Some (map (\<lambda>i. (\<Sum>u\<leftarrow>ts. u ! i) / real (length ts)) [0..<length t])
          else None)"

text \<open>
  The collecting loop of the MNIST branch with the idealised library, in which the
  subscript of a single array raises as that of \<open>None\<close> does: a finished client whose
  record holds no weight/bias pair makes the loop fail, with the clients before it
  already reset to idle. (numpy subscripts a single array and lets the loop go on; the
  general form \<open>collect_mnist_with\<close> leaves that to the library.)
\<close>

fun collect_mnist ::
  "tensor registry \<Rightarrow> (py_error \<times> tensor registry) + (tensor list \<times> tensor list \<times> tensor registry)" where
  "collect_mnist [] = Inr ([], [], [])"
| "collect_mnist ((u, c) # cs) =
     (if status c = TRAINING_FINISHED then
        (case model_params c of
           Some (WeightsBias w b) \<Rightarrow>
             (case collect_mnist cs of
                Inl (e, cs') \<Rightarrow> Inl (e, (u, c\<lparr>status := CLIENT_IDLE\<rparr>) # cs')
              | Inr (ws, bs, cs') \<Rightarrow> Inr (w # ws, b # bs, (u, c\<lparr>status := CLIENT_IDLE\<rparr>) # cs'))
         | _ \<Rightarrow> Inl (TypeError, (u, c) # cs))
      else
        (case collect_mnist cs of
           Inl (e, cs') \<Rightarrow> Inl (e, (u, c) # cs')
         | Inr (ws, bs, cs') \<Rightarrow> Inr (ws, bs, (u, c) # cs')))"

text \<open>
  The idealised \<open>np.stack\<close> takes single arrays only: the arrays among the collected
  records, or \<open>None\<close> when one is not a single array. (numpy also stacks other records,
  a weight/bias pair for one; the general form leaves that to the library.)
\<close>

fun weight_arrays :: "tensor params option list \<Rightarrow> tensor list option" where
  "weight_arrays [] = Some []"
| "weight_arrays (Some (Weights t) # ps) = map_option ((#) t) (weight_arrays ps)"
| "weight_arrays (_ # ps) = None"

definition update_server_model_params ::
  "training_type \<Rightarrow> tensor server \<Rightarrow> (py_error \<times> tensor server) + tensor server" where
  "update_server_model_params training_type s =
     (if can_update_central_model_params s then
        (let s1 = s\<lparr>server_status := UPDATING_MODEL_PARAMS\<rparr> in
         if training_type = MNIST \<or> training_type = DETERMINISTIC_MNIST then
           (case collect_mnist (training_clients s1) of
              Inl (e, cs) \<Rightarrow> Inl (e, s1\<lparr>training_clients := cs\<rparr>)
            | Inr (received_weights, received_biases, cs) \<Rightarrow>
                (let s2 = s1\<lparr>training_clients := cs\<rparr> in
                 case stack_mean received_weights of
                   None \<Rightarrow> Inl (RuntimeError, s2)
                 | Some new_weights \<Rightarrow>
                     (case stack_mean received_biases of
                        None \<Rightarrow> Inl (RuntimeError, s2)
                      | Some new_bias \<Rightarrow>
                          Inr (s2\<lparr>mnist_model_params := Some (WeightsBias new_weights new_bias),
                                  server_status := IDLE\<rparr>))))
         else if training_type = CHEST_X_RAY_PNEUMONIA then
           (case collect_chest (training_clients s1) of
              (received, cs) \<Rightarrow>
                (let s2 = s1\<lparr>training_clients := cs\<rparr> in
                 if received = [] then Inl (ValueError, s2)
                 else
                   (case weight_arrays received of
                      None \<Rightarrow> Inl (TypeError, s2)
                    | Some received_weights \<Rightarrow>
                        (case stack_mean received_weights of
                           None \<Rightarrow> Inl (ValueError, s2)
                         | Some new_weights \<Rightarrow>
                             Inr (s2\<lparr>chest_x_ray_model_params := Some (Weights new_weights),
                                     server_status := IDLE\<rparr>)))))
         else Inr (s1\<lparr>server_status := IDLE\<rparr>))
      else Inr s)"

text \<open>The library that \<open>update_server_model_params\<close> above has built in.\<close>

definition idealised_library :: "tensor tensor_library" where
  "idealised_library =
     \<lparr>torch_stack_mean =
        (\<lambda>ts. case stack_mean ts of None \<Rightarrow> Inl RuntimeError | Some m \<Rightarrow> Inr m),
      np_stack_mean =
        (\<lambda>ps. if ps = [] then Inl ValueError
              else (case weight_arrays ps of
                      None \<Rightarrow> Inl TypeError
                    | Some ws \<Rightarrow>
                        (case stack_mean ws of None \<Rightarrow> Inl ValueError | Some m \<Rightarrow> Inr m))),
      array_subscript = (\<lambda>t i. Inl TypeError)\<rparr>"

section \<open>Round coordinator\<close>

text \<open>The client object is the one registered under \<open>url\<close>.\<close>

definition update_client_model_params ::
  "training_type \<Rightarrow> string \<Rightarrow> tensor params \<Rightarrow> tensor server \<Rightarrow> (py_error \<times> tensor server) + tensor server" where
  "update_client_model_params training_type url client_model_params s =
     update_server_model_params training_type
       (s\<lparr>training_clients :=
            AList.map_entry url
              (\<lambda>c. c\<lparr>model_params := Some client_model_params, status := TRAINING_FINISHED\<rparr>)
              (training_clients s)\<rparr>)"

definition finish_round :: "training_type \<Rightarrow> string \<Rightarrow> tensor server \<Rightarrow> tensor server" where
  "finish_round training_type url s =
     (let s1 = set_client_status url TRAINING_FINISHED s in
      if can_update_central_model_params s1 \<and> training_type = GOSSIP_MNIST
      then s1\<lparr>server_status := IDLE,
              training_clients :=
                map (\<lambda>(u, c). (u, c\<lparr>status := CLIENT_IDLE\<rparr>)) (training_clients s1)\<rparr>
      else s1)"

text \<open>
  Modelled from the spec: \<open>FederatedLearningConfig\<close> is not part of the sources; it
  carries learning rate, epoch count and batch size. The table is the one written out in
  \<open>Server.start_training\<close>; outside it the variable keeps its initial value \<open>None\<close>.
\<close>

record federated_learning_config =
  learning_rate :: real
  epochs :: nat
  batch_size :: nat

definition select_config :: "training_type \<Rightarrow> federated_learning_config option" where
  "select_config training_type =
     (if training_type = MNIST \<or> training_type = DETERMINISTIC_MNIST
      then Some \<lparr>learning_rate = 1, epochs = 20, batch_size = 256\<rparr>
      else if training_type = GOSSIP_MNIST
      then Some \<lparr>learning_rate = 1, epochs = 20, batch_size = 256\<rparr>
      else if training_type = CHEST_X_RAY_PNEUMONIA
      then Some \<lparr>learning_rate = 1 / 10000, epochs = 1, batch_size = 2\<rparr>
      else None)"

text \<open>
  The outcome of one outbound \<open>session.post\<close>: an HTTP response with its status code, or
  the exception aiohttp raises when no response arrives.
\<close>

datatype dispatch_result = Ack nat | TransportFailure

text \<open>
  \<open>Server.do_training_client_request\<close> is a coroutine with one suspension point, the
  \<open>session.post\<close>. Up to there it marks the client as requested (lines 113-114); when the
  call resolves it runs lines 115-121.
\<close>

definition request_begin :: "string \<Rightarrow> tensor server \<Rightarrow> tensor server" where
  "request_begin url s = set_client_status url TRAINING_REQUESTED s"

definition request_end ::
  "training_type \<Rightarrow> string \<Rightarrow> dispatch_result \<Rightarrow> tensor server \<Rightarrow> (py_error \<times> tensor server) + tensor server" where
  "request_end training_type url r s =
     (case r of
        TransportFailure \<Rightarrow> Inl (ClientConnectionError, s)
      | Ack code \<Rightarrow>
          if code \<noteq> 200
          then update_server_model_params training_type
                 (set_client_status url TRAINING_REQUEST_ERROR s)
          else Inr s)"

definition do_training_client_request ::
  "training_type \<Rightarrow> string \<Rightarrow> dispatch_result \<Rightarrow> tensor server \<Rightarrow> (py_error \<times> tensor server) + tensor server" where
  "do_training_client_request training_type url r s =
     request_end training_type url r (request_begin url s)"

text \<open>
  \<open>asyncio.gather\<close> over the tasks: every task has run to its \<open>session.post\<close> before any
  call resolves; the calls then resolve in the order of \<open>arrivals\<close>, each with its result.
  The first exception ends \<open>start_training\<close>, and the tasks still waiting are cancelled.
\<close>

fun gather ::
  "training_type \<Rightarrow> (string \<times> dispatch_result) list \<Rightarrow> tensor server \<Rightarrow> (py_error \<times> tensor server) + tensor server"
  where
  "gather training_type [] s = Inr s"
| "gather training_type ((url, r) # arrivals) s =
     (case request_end training_type url r s of
        Inl e \<Rightarrow> Inl e
      | Inr s' \<Rightarrow> gather training_type arrivals s')"

text \<open>
  \<open>Server.start_training\<close>. The second component lists the clients a request was posted to
  (request url without the \<open>/training\<close> suffix, and the \<open>client_id\<close> of the body). Building
  the body from the central parameters is left to the serialisation helper.
\<close>

definition start_training ::
  "training_type \<Rightarrow> (string \<times> dispatch_result) list \<Rightarrow> tensor server \<Rightarrow>
     ((py_error \<times> tensor server) + tensor server) \<times> (string \<times> nat) list" where
  "start_training training_type arrivals s =
     (if server_status s \<noteq> IDLE then (Inr s, [])
      else if length (training_clients s) = 0 then (Inr s, [])
      else
        (let s1 = s\<lparr>round_n := round_n s + 1\<rparr> in
         case select_config training_type of
           None \<Rightarrow> (Inl (AttributeError, s1), [])
         | Some federated_learning_config \<Rightarrow>
             (let s2 = s1\<lparr>server_status := CLIENTS_TRAINING\<rparr>;
                  s3 = fold request_begin (map fst (training_clients s2)) s2
              in (gather training_type arrivals s3,
                  map (\<lambda>(u, c). (u, client_id c)) (training_clients s2)))))"

section \<open>Inbound callbacks (server/__init__.py)\<close>

text \<open>
  What a route gives back: a response with its status code, or an exception no handler
  catches.
\<close>

datatype http_result = Response nat | Unhandled py_error

text \<open>
  \<open>PUT /model_params\<close>. \<open>parsed\<close> is what \<open>request_params_to_model_params\<close> returns or
  raises on the request body. The \<open>except KeyError\<close> covers the whole \<open>try\<close> block.
\<close>

definition update_weights ::
  "string \<Rightarrow> training_type \<Rightarrow> py_error + tensor params \<Rightarrow> tensor server \<Rightarrow> http_result \<times> tensor server" where
  "update_weights url training_type parsed s =
     (case map_of (training_clients s) url of
        None \<Rightarrow> (Response 401, s)
      | Some training_client \<Rightarrow>
          (case parsed of
             Inl e \<Rightarrow> (if e = KeyError then Response 401 else Unhandled e, s)
           | Inr p \<Rightarrow>
               (case update_client_model_params training_type url p s of
                  Inl (e, s') \<Rightarrow> (if e = KeyError then Response 401 else Unhandled e, s')
                | Inr s' \<Rightarrow> (Response 200, s'))))"

text \<open>\<open>POST /finish_round\<close>; the lookup is not inside a \<open>try\<close>.\<close>

definition finish_round_route ::
  "string \<Rightarrow> training_type \<Rightarrow> tensor server \<Rightarrow> http_result \<times> tensor server" where
  "finish_round_route url training_type s =
     (if training_type = GOSSIP_MNIST then
        (case map_of (training_clients s) url of
           None \<Rightarrow> (Unhandled KeyError, s)
         | Some training_client \<Rightarrow> (Response 200, finish_round training_type url s))
      else (Response 400, s))"

section \<open>Auxiliary notions used in the statements\<close>

text \<open>The state an operation leaves behind, whether it returned or raised.\<close>

definition final_state :: "(py_error \<times> 't server) + 't server \<Rightarrow> 't server" where
  "final_state r = (case r of Inl (e, s) \<Rightarrow> s | Inr s \<Rightarrow> s)"

text \<open>
  The operations the coordinator offers through its routes, and the state each leaves
  behind (whether it returned or raised).
\<close>

datatype operation =
    StartTraining training_type "(string \<times> dispatch_result) list"
  | RegisterClient string
  | UnregisterClient string
  | UpdateWeights string training_type "py_error + tensor params"
  | FinishRound string training_type

fun apply_operation :: "operation \<Rightarrow> tensor server \<Rightarrow> tensor server" where
  "apply_operation (StartTraining tt arrivals) s = final_state (fst (start_training tt arrivals s))"
| "apply_operation (RegisterClient url) s = register_client url s"
| "apply_operation (UnregisterClient url) s = unregister_client url s"
| "apply_operation (UpdateWeights url tt parsed) s = snd (update_weights url tt parsed s)"
| "apply_operation (FinishRound url tt) s = snd (finish_round_route url tt s)"

text \<open>What an aggregation pass does to the registry: finished clients become idle.\<close>

definition reset_finished :: "'t registry \<Rightarrow> 't registry" where
  "reset_finished cs =
     map (\<lambda>(u, c). (u, if status c = TRAINING_FINISHED then c\<lparr>status := CLIENT_IDLE\<rparr> else c)) cs"

text \<open>The registered clients in \<open>TRAINING_FINISHED\<close> status, in registry order.\<close>

definition finished_clients :: "'t registry \<Rightarrow> 't training_client list" where
  "finished_clients cs = map snd (filter (\<lambda>(u, c). status c = TRAINING_FINISHED) cs)"

text \<open>Overwriting the parameters stored in the record registered under a url.\<close>

definition put_params :: "string \<Rightarrow> tensor params option \<Rightarrow> tensor server \<Rightarrow> tensor server" where
  "put_params url p s =
     s\<lparr>training_clients := AList.map_entry url (\<lambda>c. c\<lparr>model_params := p\<rparr>) (training_clients s)\<rparr>"

text \<open>The two registry operations, for statements about sequences of them.\<close>

datatype registry_operation = Register string | Unregister string

fun apply_registry_operation :: "registry_operation \<Rightarrow> tensor server \<Rightarrow> tensor server" where
  "apply_registry_operation (Register url) s = register_client url s"
| "apply_registry_operation (Unregister url) s = unregister_client url s"


text \<open>
  What follows a \<open>start_training\<close>: a participant reports a result
  (\<open>update_client_model_params\<close>), or its dispatch call resolves with a status code
  (\<open>request_end\<close>).
\<close>

datatype round_event =
    ReportResult string training_type "tensor params"
  | DispatchFailure string training_type nat

fun event_url :: "round_event \<Rightarrow> string" where
  "event_url (ReportResult url tt p) = url"
| "event_url (DispatchFailure url tt code) = url"

fun apply_event :: "round_event \<Rightarrow> tensor server \<Rightarrow> (py_error \<times> tensor server) + tensor server" where
  "apply_event (ReportResult url tt p) s = update_client_model_params tt url p s"
| "apply_event (DispatchFailure url tt code) s = request_end tt url (Ack code) s"

text \<open>
  Whether the event's call of \<open>update_server_model_params\<close> finds the quorum predicate
  true, so that the server enters \<open>UPDATING_MODEL_PARAMS\<close> (line 154-156).
\<close>

fun enters_aggregation :: "round_event \<Rightarrow> tensor server \<Rightarrow> bool" where
  "enters_aggregation (ReportResult url tt p) s =
     can_update_central_model_params
       (s\<lparr>training_clients :=
            AList.map_entry url
              (\<lambda>c. c\<lparr>model_params := Some p, status := TRAINING_FINISHED\<rparr>)
              (training_clients s)\<rparr>)"
| "enters_aggregation (DispatchFailure url tt code) s =
     (code \<noteq> 200 \<and>
      can_update_central_model_params (set_client_status url TRAINING_REQUEST_ERROR s))"

fun aggregation_passes :: "round_event list \<Rightarrow> tensor server \<Rightarrow> nat" where
  "aggregation_passes [] s = 0"
| "aggregation_passes (e # es) s =
     (if enters_aggregation e s then 1 else 0) +
     aggregation_passes es (final_state (apply_event e s))"

section \<open>Evaluation lemmas\<close>

lemmas coordinator_defs =
  start_training_def register_client_def unregister_client_def init_server_def
  new_training_client_def select_config_def request_begin_def request_end_def
  do_training_client_request_def set_client_status_def update_server_model_params_def
  can_update_central_model_params_def stack_mean_def update_client_model_params_def
  finish_round_def finish_round_route_def update_weights_def can_do_training_def
  final_state_def AList.delete_eq

section \<open>Properties\<close>

text \<open>
  C1. A centralized round in which every participant ends in \<open>TRAINING_REQUEST_ERROR\<close>
  should close with the central parameters untouched and without any error. The code does
  not do so: with one registered participant whose dispatch is answered by status 500,
  the aggregation that follows stacks an empty list, \<open>torch.stack\<close> raises, and the server
  is left in \<open>UPDATING_MODEL_PARAMS\<close> (central parameters unchanged, round not closed).
\<close>

theorem all_errored_round_raises:
  "start_training MNIST [(''http://a'', Ack 500)]
     (register_client ''http://a'' (init_server [0] [0])) =
   (Inl (RuntimeError,
      \<lparr>mnist_model_params = Some (WeightsBias [0] [0]),
       chest_x_ray_model_params = None,
       training_clients =
         [(''http://a'',
           \<lparr>client_url = ''http://a'', client_id = 1,
            status = TRAINING_REQUEST_ERROR, model_params = None\<rparr>)],
       server_status = UPDATING_MODEL_PARAMS,
       round_n = 1\<rparr>),
    [(''http://a'', 1)])"
  by (simp add: coordinator_defs)

text \<open>
  C6. A callback whose \<open>client_url\<close> is not registered should be answered with a client
  error and change nothing. \<open>PUT /model_params\<close> does that (status 401); \<open>POST /finish_round\<close>
  for the gossip variant does not: its lookup raises a \<open>KeyError\<close> that nothing catches.
  The state is unchanged in both.
\<close>

theorem finish_round_unknown_client_unhandled:
  "finish_round_route ''http://nobody'' GOSSIP_MNIST (init_server [0] [0]) =
     (Unhandled KeyError, init_server [0] [0])
   \<and> update_weights ''http://nobody'' GOSSIP_MNIST (Inr (Weights [])) (init_server [0] [0]) =
     (Response 401, init_server [0] [0])"
  by (simp add: coordinator_defs)

text \<open>
  C8. A training type outside the configuration table should leave the coordinator
  untouched and raise nothing. The code advances the round counter and then fails on the
  attribute access of the configuration that was never selected; no request is posted.
\<close>

theorem unknown_training_type_raises:
  "start_training (OTHER ''CIFAR'') [(''http://a'', Ack 200)]
     (register_client ''http://a'' (init_server [0] [0])) =
   (Inl (AttributeError, (register_client ''http://a'' (init_server [0] [0]))\<lparr>round_n := 1\<rparr>),
    [])"
  by (simp add: coordinator_defs)

subsection \<open>The round counter\<close>

lemma final_state_simps [simp]:
  "final_state (Inl (e, s)) = s" "final_state (Inr s) = s"
  by (simp_all add: final_state_def)

lemma round_update_server:
  "round_n (final_state (update_server_model_params tt s)) = round_n s"
  by (auto simp: update_server_model_params_def final_state_def Let_def
      split: sum.splits prod.splits option.splits)

lemma round_set_client_status: "round_n (set_client_status u st s) = round_n s"
  by (simp add: set_client_status_def)

lemma round_request_end: "round_n (final_state (request_end tt u r s)) = round_n s"
proof (cases r)
  case (Ack code)
  then show ?thesis
    using round_update_server [of tt "set_client_status u TRAINING_REQUEST_ERROR s"]
    by (simp add: request_end_def round_set_client_status)
next
  case TransportFailure
  then show ?thesis by (simp add: request_end_def final_state_def)
qed

lemma round_gather: "round_n (final_state (gather tt arrivals s)) = round_n s"
proof (induction arrivals arbitrary: s)
  case Nil
  then show ?case by (simp add: final_state_def)
next
  case (Cons a arrivals)
  obtain u r where a: "a = (u, r)" by (cases a)
  show ?case
  proof (cases "request_end tt u r s")
    case (Inl e)
    then show ?thesis using round_request_end [of tt u r s] a by simp
  next
    case (Inr s')
    then have "round_n s' = round_n s"
      using round_request_end [of tt u r s] by (simp add: final_state_def)
    then show ?thesis using Cons.IH [of s'] Inr a by simp
  qed
qed

lemma round_fold_request_begin: "round_n (fold request_begin us s) = round_n s"
  by (induction us arbitrary: s) (simp_all add: request_begin_def round_set_client_status)

lemma round_start_training:
  "round_n (final_state (fst (start_training tt arrivals s))) =
     (if server_status s = IDLE \<and> training_clients s \<noteq> [] then round_n s + 1 else round_n s)"
proof (cases "server_status s = IDLE \<and> training_clients s \<noteq> []")
  case False
  then show ?thesis by (auto simp: start_training_def)
next
  case True
  show ?thesis
  proof (cases "select_config tt")
    case None
    with True show ?thesis by (simp add: start_training_def)
  next
    case (Some cfg)
    with True show ?thesis
      by (simp add: start_training_def Let_def round_gather round_fold_request_begin)
  qed
qed

lemma round_finish_round: "round_n (finish_round tt u s) = round_n s"
  by (simp add: finish_round_def Let_def round_set_client_status)

lemma round_update_weights: "round_n (snd (update_weights u tt parsed s)) = round_n s"
proof (cases "map_of (training_clients s) u")
  case None
  then show ?thesis by (simp add: update_weights_def)
next
  case (Some c)
  show ?thesis
  proof (cases parsed)
    case (Inl e)
    with Some show ?thesis by (simp add: update_weights_def)
  next
    case (Inr p)
    have r: "round_n (final_state (update_client_model_params tt u p s)) = round_n s"
      unfolding update_client_model_params_def by (simp add: round_update_server)
    show ?thesis
    proof (cases "update_client_model_params tt u p s")
      case (Inl es)
      then obtain e s' where "update_client_model_params tt u p s = Inl (e, s')"
        by (cases es) simp
      with r Some Inr show ?thesis by (simp add: update_weights_def)
    next
      case (Inr s')
      with r Some \<open>parsed = Inr p\<close> show ?thesis by (simp add: update_weights_def)
    qed
  qed
qed

lemma round_apply_operation:
  "round_n (apply_operation op s) =
     (if (\<exists>tt arrivals. op = StartTraining tt arrivals) \<and> server_status s = IDLE
          \<and> training_clients s \<noteq> []
      then round_n s + 1 else round_n s)"
proof (cases op)
  case (StartTraining tt arrivals)
  then show ?thesis by (simp add: round_start_training)
next
  case (RegisterClient u)
  then show ?thesis
    by (simp add: register_client_def round_set_client_status split: option.splits)
next
  case (UnregisterClient u)
  then show ?thesis by (simp add: unregister_client_def)
next
  case (UpdateWeights u tt parsed)
  then show ?thesis by (simp add: round_update_weights)
next
  case (FinishRound u tt)
  then show ?thesis by (simp add: finish_round_route_def round_finish_round split: option.splits)
qed

lemma round_fold_operations: "round_n s \<le> round_n (fold apply_operation ops s)"
proof (induction ops arbitrary: s)
  case Nil
  then show ?case by simp
next
  case (Cons op ops)
  have "round_n s \<le> round_n (apply_operation op s)"
    by (simp add: round_apply_operation)
  also have "\<dots> \<le> round_n (fold apply_operation ops (apply_operation op s))"
    by (rule Cons.IH)
  finally show ?case by simp
qed

text \<open>
  C7. When \<open>start_training\<close> is called while the server is not \<open>IDLE\<close>, or with an empty
  registry, it returns normally with the state exactly as it was and posts no request.
  No operation decreases the round counter, and an operation that changes it started from
  an \<open>IDLE\<close> server; hence the counter never decreases along any sequence of operations.
\<close>

theorem start_training_precondition_no_change:
  "((server_status s \<noteq> IDLE \<or> training_clients s = []) \<longrightarrow>
      start_training tt arrivals s = (Inr s, []))
   \<and> round_n s \<le> round_n (apply_operation op s)
   \<and> (round_n (apply_operation op s) \<noteq> round_n s \<longrightarrow> server_status s = IDLE)
   \<and> round_n s \<le> round_n (fold apply_operation ops s)"
  by (auto simp: start_training_def round_apply_operation round_fold_operations)

theorem start_training_precondition_no_change_witness:
  "(training_clients (init_server [0] [0]) = []
    \<and> start_training MNIST [] (init_server [0] [0]) = (Inr (init_server [0] [0]), []))
   \<and> (server_status ((register_client ''http://a'' (init_server [0] [0]))\<lparr>server_status := CLIENTS_TRAINING\<rparr>) \<noteq> IDLE
    \<and> start_training MNIST [(''http://a'', Ack 200)] ((register_client ''http://a'' (init_server [0] [0]))\<lparr>server_status := CLIENTS_TRAINING\<rparr>)
        = (Inr ((register_client ''http://a'' (init_server [0] [0]))\<lparr>server_status := CLIENTS_TRAINING\<rparr>), []))
   \<and> (round_n (apply_operation (StartTraining MNIST [(''http://a'', Ack 200)])
          (register_client ''http://a'' (init_server [0] [0])))
        \<noteq> round_n (register_client ''http://a'' (init_server [0] [0]))
      \<and> server_status (register_client ''http://a'' (init_server [0] [0])) = IDLE)"
  using start_training_precondition_no_change
          [of "init_server [0] [0]" MNIST "[]"
              "StartTraining MNIST []" "[]"]
        start_training_precondition_no_change
          [of "(register_client ''http://a'' (init_server [0] [0]))\<lparr>server_status := CLIENTS_TRAINING\<rparr>" MNIST "[(''http://a'', Ack 200)]"
              "StartTraining MNIST []" "[]"]
        start_training_precondition_no_change
          [of "register_client ''http://a'' (init_server [0] [0])" MNIST "[]"
              "StartTraining MNIST [(''http://a'', Ack 200)]" "[]"]
  by (simp add: coordinator_defs)

subsection \<open>Collecting the contributions, and the registry after an aggregation pass\<close>

lemma reset_finished_simps [simp]:
  "reset_finished [] = []"
  "reset_finished ((u, c) # cs) =
     (u, if status c = TRAINING_FINISHED then c\<lparr>status := CLIENT_IDLE\<rparr> else c) # reset_finished cs"
  by (simp_all add: reset_finished_def)

lemma finished_clients_simps [simp]:
  "finished_clients [] = []"
  "finished_clients ((u, c) # cs) =
     (if status c = TRAINING_FINISHED then c # finished_clients cs else finished_clients cs)"
  by (simp_all add: finished_clients_def)

lemma collect_mnist_registry:
  "collect_mnist cs = Inr (ws, bs, cs') \<Longrightarrow> cs' = reset_finished cs"
proof (induction cs arbitrary: ws bs cs')
  case Nil
  then show ?case by simp
next
  case (Cons a cs)
  obtain u c where a: "a = (u, c)" by (cases a)
  from Cons.prems a obtain ws0 bs0 cs0 where rec: "collect_mnist cs = Inr (ws0, bs0, cs0)"
    by (auto split: if_splits option.splits params.splits sum.splits)
  then have "cs0 = reset_finished cs" by (rule Cons.IH)
  with Cons.prems a rec show ?case
    by (auto split: if_splits option.splits params.splits)
qed

lemma collect_chest_registry: "snd (collect_chest cs) = reset_finished cs"
  by (induction cs) (auto split: prod.splits)

lemma collect_chest_received: "fst (collect_chest cs) = map model_params (finished_clients cs)"
  by (induction cs) (auto split: prod.splits)

lemma can_update_loop_iff:
  "can_update_loop cs \<longleftrightarrow>
     (\<forall>(u, c)\<in>set cs. status c = TRAINING_FINISHED \<or> status c = TRAINING_REQUEST_ERROR)"
  by (induction cs rule: can_update_loop.induct) auto

lemma can_do_training_loop_iff:
  "can_do_training_loop cs \<longleftrightarrow>
     (\<forall>(u, c)\<in>set cs. status c = CLIENT_IDLE \<or> status c = TRAINING_REQUEST_ERROR)"
  by (induction cs rule: can_do_training_loop.induct) auto

lemma can_do_training_reset_finished:
  "can_update_loop cs \<Longrightarrow> can_do_training_loop (reset_finished cs)"
  by (induction cs rule: can_update_loop.induct) (auto split: if_splits)

lemma update_server_registry:
  assumes "update_server_model_params tt s = Inr s'"
    and "can_update_central_model_params s"
    and "tt = MNIST \<or> tt = DETERMINISTIC_MNIST \<or> tt = CHEST_X_RAY_PNEUMONIA"
  shows "training_clients s' = reset_finished (training_clients s)"
proof (cases "tt = CHEST_X_RAY_PNEUMONIA")
  case True
  with assms(1,2) collect_chest_registry [of "training_clients s"] show ?thesis
    by (auto simp: update_server_model_params_def Let_def
        split: prod.splits if_splits option.splits)
next
  case False
  with assms(3) have m: "tt = MNIST \<or> tt = DETERMINISTIC_MNIST" by simp
  with assms(1,2) obtain ws bs cs where
    c: "collect_mnist (training_clients s) = Inr (ws, bs, cs)" and "training_clients s' = cs"
    by (auto simp: update_server_model_params_def Let_def
        split: sum.splits prod.splits option.splits)
  with collect_mnist_registry [OF c] show ?thesis by simp
qed

text \<open>
  C10. \<open>can_do_training\<close> holds exactly when no registered participant is in
  \<open>TRAINING_REQUESTED\<close> or \<open>TRAINING_FINISHED\<close>, that is, when every one is idle or in
  \<open>TRAINING_REQUEST_ERROR\<close>; it holds on the empty registry. After an aggregation pass
  of a centralized variant that returned, it holds, whatever participants were left in
  \<open>TRAINING_REQUEST_ERROR\<close>.
\<close>

theorem can_do_training_characterisation:
  "(can_do_training s \<longleftrightarrow>
      (\<forall>(u, c)\<in>set (training_clients s).
         status c \<noteq> TRAINING_REQUESTED \<and> status c \<noteq> TRAINING_FINISHED))
   \<and> (can_do_training s \<longleftrightarrow>
      (\<forall>(u, c)\<in>set (training_clients s).
         status c = CLIENT_IDLE \<or> status c = TRAINING_REQUEST_ERROR))
   \<and> (training_clients s = [] \<longrightarrow> can_do_training s)
   \<and> (can_update_central_model_params s
        \<and> (tt = MNIST \<or> tt = DETERMINISTIC_MNIST \<or> tt = CHEST_X_RAY_PNEUMONIA)
        \<and> update_server_model_params tt s = Inr s'
      \<longrightarrow> can_do_training s')"
proof -
  have eq: "(status c \<noteq> TRAINING_REQUESTED \<and> status c \<noteq> TRAINING_FINISHED) =
            (status c = CLIENT_IDLE \<or> status c = TRAINING_REQUEST_ERROR)" for c :: "tensor training_client"
    by (cases "status c") simp_all
  have a: "can_do_training s \<longleftrightarrow>
      (\<forall>(u, c)\<in>set (training_clients s).
         status c = CLIENT_IDLE \<or> status c = TRAINING_REQUEST_ERROR)"
    by (simp add: can_do_training_def can_do_training_loop_iff)
  have b: "can_do_training s'"
    if "can_update_central_model_params s"
      and "tt = MNIST \<or> tt = DETERMINISTIC_MNIST \<or> tt = CHEST_X_RAY_PNEUMONIA"
      and "update_server_model_params tt s = Inr s'"
    using update_server_registry [OF that(3) that(1) that(2)] that(1)
    by (simp add: can_do_training_def can_update_central_model_params_def
        can_do_training_reset_finished)
  have c: "training_clients s = [] \<longrightarrow> can_do_training s"
    by (simp add: can_do_training_def)
  from a b c show ?thesis by (simp add: eq)
qed

theorem can_do_training_characterisation_witness:
  "can_update_central_model_params
     \<lparr>mnist_model_params = Some (WeightsBias [0] [0]),
      chest_x_ray_model_params = None,
      training_clients =
        [(''http://a'', \<lparr>client_url = ''http://a'', client_id = 1,
            status = TRAINING_FINISHED, model_params = Some (WeightsBias [4] [2])\<rparr>),
         (''http://b'', \<lparr>client_url = ''http://b'', client_id = 2,
            status = TRAINING_REQUEST_ERROR, model_params = None\<rparr>)],
      server_status = CLIENTS_TRAINING,
      round_n = 1\<rparr>
   \<and> update_server_model_params MNIST
     \<lparr>mnist_model_params = Some (WeightsBias [0] [0]),
      chest_x_ray_model_params = None,
      training_clients =
        [(''http://a'', \<lparr>client_url = ''http://a'', client_id = 1,
            status = TRAINING_FINISHED, model_params = Some (WeightsBias [4] [2])\<rparr>),
         (''http://b'', \<lparr>client_url = ''http://b'', client_id = 2,
            status = TRAINING_REQUEST_ERROR, model_params = None\<rparr>)],
      server_status = CLIENTS_TRAINING,
      round_n = 1\<rparr>
     = Inr \<lparr>mnist_model_params = Some (WeightsBias [4] [2]),
      chest_x_ray_model_params = None,
      training_clients =
        [(''http://a'', \<lparr>client_url = ''http://a'', client_id = 1,
            status = CLIENT_IDLE, model_params = Some (WeightsBias [4] [2])\<rparr>),
         (''http://b'', \<lparr>client_url = ''http://b'', client_id = 2,
            status = TRAINING_REQUEST_ERROR, model_params = None\<rparr>)],
      server_status = IDLE,
      round_n = 1\<rparr>
   \<and> can_do_training \<lparr>mnist_model_params = Some (WeightsBias [4] [2]),
      chest_x_ray_model_params = None,
      training_clients =
        [(''http://a'', \<lparr>client_url = ''http://a'', client_id = 1,
            status = CLIENT_IDLE, model_params = Some (WeightsBias [4] [2])\<rparr>),
         (''http://b'', \<lparr>client_url = ''http://b'', client_id = 2,
            status = TRAINING_REQUEST_ERROR, model_params = None\<rparr>)],
      server_status = IDLE,
      round_n = 1\<rparr>
   \<and> can_do_training (init_server [0] [0])"
  using can_do_training_characterisation
    [of "\<lparr>mnist_model_params = Some (WeightsBias [0] [0]),
      chest_x_ray_model_params = None,
      training_clients =
        [(''http://a'', \<lparr>client_url = ''http://a'', client_id = 1,
            status = TRAINING_FINISHED, model_params = Some (WeightsBias [4] [2])\<rparr>),
         (''http://b'', \<lparr>client_url = ''http://b'', client_id = 2,
            status = TRAINING_REQUEST_ERROR, model_params = None\<rparr>)],
      server_status = CLIENTS_TRAINING,
      round_n = 1\<rparr>" MNIST
      "\<lparr>mnist_model_params = Some (WeightsBias [4] [2]),
      chest_x_ray_model_params = None,
      training_clients =
        [(''http://a'', \<lparr>client_url = ''http://a'', client_id = 1,
            status = CLIENT_IDLE, model_params = Some (WeightsBias [4] [2])\<rparr>),
         (''http://b'', \<lparr>client_url = ''http://b'', client_id = 2,
            status = TRAINING_REQUEST_ERROR, model_params = None\<rparr>)],
      server_status = IDLE,
      round_n = 1\<rparr>"]
    can_do_training_characterisation [of "init_server [0] [0]" MNIST "init_server [0] [0]"]
  by (simp add: coordinator_defs)

subsection \<open>Aggregation\<close>

text \<open>
  The aggregation that the coordinator is evaluated with is the general one at the
  idealised library.
\<close>

lemma collect_mnist_idealised: "collect_mnist cs = collect_mnist_with idealised_library cs"
  by (induction cs rule: collect_mnist.induct)
     (auto simp: weights_and_bias_def idealised_library_def
       split: option.splits params.splits sum.splits)

lemma update_server_model_params_idealised:
  "update_server_model_params tt s = update_server_model_params_with idealised_library tt s"
proof -
  have lib: "torch_stack_mean idealised_library =
               (\<lambda>ts. case stack_mean ts of None \<Rightarrow> Inl RuntimeError | Some m \<Rightarrow> Inr m)"
    "np_stack_mean idealised_library =
        (\<lambda>ps. if ps = [] then Inl ValueError
              else (case weight_arrays ps of
                      None \<Rightarrow> Inl TypeError
                    | Some ws \<Rightarrow>
                        (case stack_mean ws of None \<Rightarrow> Inl ValueError | Some m \<Rightarrow> Inr m)))"
    by (simp_all add: idealised_library_def)
  show ?thesis
    unfolding update_server_model_params_def update_server_model_params_with_def
      collect_mnist_idealised lib
    by (auto simp: Let_def split: sum.splits prod.splits option.splits)
qed

lemma collect_mnist_with_ok:
  "map (\<lambda>c. weights_and_bias lib (model_params c)) (finished_clients cs) = map Inr wbs \<Longrightarrow>
   collect_mnist_with lib cs = Inr (map fst wbs, map snd wbs, reset_finished cs)"
proof (induction cs arbitrary: wbs)
  case Nil
  then show ?case by simp
next
  case (Cons a cs)
  obtain u c where a: "a = (u, c)" by (cases a)
  show ?case
  proof (cases "status c = TRAINING_FINISHED")
    case False
    with Cons a show ?thesis by simp
  next
    case True
    with Cons.prems a obtain w b wbs' where
      wbs: "wbs = (w, b) # wbs'" and c: "weights_and_bias lib (model_params c) = Inr (w, b)" and
      rest: "map (\<lambda>c. weights_and_bias lib (model_params c)) (finished_clients cs) = map Inr wbs'"
      by (cases wbs) auto
    from Cons.IH [OF rest] True a wbs c show ?thesis by simp
  qed
qed

text \<open>
  C3 (as amended). When the quorum predicate holds and the library's stacked mean returns
  on the parameters of exactly the finished participants, taken in registry order (for the
  MNIST variants on their weights and on their biases, for the chest X-ray variant on
  their arrays), the aggregation returns normally: the variant's central parameters become
  what the library returned, every finished participant becomes idle, every participant
  in \<open>TRAINING_REQUEST_ERROR\<close> keeps that status, and the server status is \<open>IDLE\<close>.
  The mean is the library's, computed in its floating-point arithmetic.
\<close>

theorem aggregation_over_finished_participants:
  assumes "can_update_central_model_params s"
  shows
  "((tt = MNIST \<or> tt = DETERMINISTIC_MNIST) \<and>
     map (\<lambda>c. weights_and_bias lib (model_params c)) (finished_clients (training_clients s)) =
       map Inr wbs \<and>
     torch_stack_mean lib (map fst wbs) = Inr new_weights \<and>
     torch_stack_mean lib (map snd wbs) = Inr new_bias \<longrightarrow>
     update_server_model_params_with lib tt s =
       Inr (s\<lparr>mnist_model_params := Some (WeightsBias new_weights new_bias),
              training_clients := reset_finished (training_clients s),
              server_status := IDLE\<rparr>))
   \<and> (np_stack_mean lib (map model_params (finished_clients (training_clients s))) =
       Inr new_array \<longrightarrow>
     update_server_model_params_with lib CHEST_X_RAY_PNEUMONIA s =
       Inr (s\<lparr>chest_x_ray_model_params := Some (Weights new_array),
              training_clients := reset_finished (training_clients s),
              server_status := IDLE\<rparr>))"
proof (intro conjI impI)
  assume h: "(tt = MNIST \<or> tt = DETERMINISTIC_MNIST) \<and>
     map (\<lambda>c. weights_and_bias lib (model_params c)) (finished_clients (training_clients s)) =
       map Inr wbs \<and>
     torch_stack_mean lib (map fst wbs) = Inr new_weights \<and>
     torch_stack_mean lib (map snd wbs) = Inr new_bias"
  then have "collect_mnist_with lib (training_clients s) =
      Inr (map fst wbs, map snd wbs, reset_finished (training_clients s))"
    by (intro collect_mnist_with_ok) simp
  with assms h show "update_server_model_params_with lib tt s =
       Inr (s\<lparr>mnist_model_params := Some (WeightsBias new_weights new_bias),
              training_clients := reset_finished (training_clients s),
              server_status := IDLE\<rparr>)"
    by (auto simp: update_server_model_params_with_def Let_def)
next
  assume h: "np_stack_mean lib (map model_params (finished_clients (training_clients s))) =
       Inr new_array"
  obtain received cs where c: "collect_chest (training_clients s) = (received, cs)"
    by (cases "collect_chest (training_clients s)")
  with collect_chest_received [of "training_clients s"]
    collect_chest_registry [of "training_clients s"]
  have "received = map model_params (finished_clients (training_clients s))"
    and "cs = reset_finished (training_clients s)"
    by simp_all
  with assms h c show "update_server_model_params_with lib CHEST_X_RAY_PNEUMONIA s =
       Inr (s\<lparr>chest_x_ray_model_params := Some (Weights new_array),
              training_clients := reset_finished (training_clients s),
              server_status := IDLE\<rparr>)"
    by (simp add: update_server_model_params_with_def Let_def)
qed


theorem aggregation_over_finished_participants_witness:
  "can_update_central_model_params
     \<lparr>mnist_model_params = Some (WeightsBias [0] [0]),
      chest_x_ray_model_params = None,
      training_clients =
        [(''http://a'', \<lparr>client_url = ''http://a'', client_id = 1,
            status = TRAINING_FINISHED, model_params = Some (WeightsBias [1] [5])\<rparr>),
         (''http://b'', \<lparr>client_url = ''http://b'', client_id = 2,
            status = TRAINING_FINISHED, model_params = Some (WeightsBias [2] [5])\<rparr>),
         (''http://c'', \<lparr>client_url = ''http://c'', client_id = 3,
            status = TRAINING_REQUEST_ERROR, model_params = Some (WeightsBias [100] [100])\<rparr>),
         (''http://d'', \<lparr>client_url = ''http://d'', client_id = 4,
            status = TRAINING_FINISHED, model_params = Some (WeightsBias [3] [5])\<rparr>)],
      server_status = CLIENTS_TRAINING,
      round_n = 1\<rparr>
   \<and> map (\<lambda>c. weights_and_bias idealised_library (model_params c))
       (finished_clients (training_clients
     \<lparr>mnist_model_params = Some (WeightsBias [0] [0]),
      chest_x_ray_model_params = None,
      training_clients =
        [(''http://a'', \<lparr>client_url = ''http://a'', client_id = 1,
            status = TRAINING_FINISHED, model_params = Some (WeightsBias [1] [5])\<rparr>),
         (''http://b'', \<lparr>client_url = ''http://b'', client_id = 2,
            status = TRAINING_FINISHED, model_params = Some (WeightsBias [2] [5])\<rparr>),
         (''http://c'', \<lparr>client_url = ''http://c'', client_id = 3,
            status = TRAINING_REQUEST_ERROR, model_params = Some (WeightsBias [100] [100])\<rparr>),
         (''http://d'', \<lparr>client_url = ''http://d'', client_id = 4,
            status = TRAINING_FINISHED, model_params = Some (WeightsBias [3] [5])\<rparr>)],
      server_status = CLIENTS_TRAINING,
      round_n = 1\<rparr>)) =
     map Inr [([1], [5]), ([2], [5]), ([3], [5])]
   \<and> torch_stack_mean idealised_library (map fst [([1], [5]), ([2], [5]), ([3], [5])]) = Inr [2]
   \<and> torch_stack_mean idealised_library (map snd [([1], [5]), ([2], [5]), ([3], [5])]) = Inr [5]
   \<and> update_server_model_params_with idealised_library MNIST
     \<lparr>mnist_model_params = Some (WeightsBias [0] [0]),
      chest_x_ray_model_params = None,
      training_clients =
        [(''http://a'', \<lparr>client_url = ''http://a'', client_id = 1,
            status = TRAINING_FINISHED, model_params = Some (WeightsBias [1] [5])\<rparr>),
         (''http://b'', \<lparr>client_url = ''http://b'', client_id = 2,
            status = TRAINING_FINISHED, model_params = Some (WeightsBias [2] [5])\<rparr>),
         (''http://c'', \<lparr>client_url = ''http://c'', client_id = 3,
            status = TRAINING_REQUEST_ERROR, model_params = Some (WeightsBias [100] [100])\<rparr>),
         (''http://d'', \<lparr>client_url = ''http://d'', client_id = 4,
            status = TRAINING_FINISHED, model_params = Some (WeightsBias [3] [5])\<rparr>)],
      server_status = CLIENTS_TRAINING,
      round_n = 1\<rparr>
   = Inr
     \<lparr>mnist_model_params = Some (WeightsBias [2] [5]),
      chest_x_ray_model_params = None,
      training_clients =
        [(''http://a'', \<lparr>client_url = ''http://a'', client_id = 1,
            status = CLIENT_IDLE, model_params = Some (WeightsBias [1] [5])\<rparr>),
         (''http://b'', \<lparr>client_url = ''http://b'', client_id = 2,
            status = CLIENT_IDLE, model_params = Some (WeightsBias [2] [5])\<rparr>),
         (''http://c'', \<lparr>client_url = ''http://c'', client_id = 3,
            status = TRAINING_REQUEST_ERROR, model_params = Some (WeightsBias [100] [100])\<rparr>),
         (''http://d'', \<lparr>client_url = ''http://d'', client_id = 4,
            status = CLIENT_IDLE, model_params = Some (WeightsBias [3] [5])\<rparr>)],
      server_status = IDLE,
      round_n = 1\<rparr>
   \<and> can_update_central_model_params
     \<lparr>mnist_model_params = Some (WeightsBias [0] [0]),
      chest_x_ray_model_params = None,
      training_clients =
        [(''http://a'', \<lparr>client_url = ''http://a'', client_id = 1,
            status = TRAINING_FINISHED, model_params = Some (Weights [1, 10])\<rparr>),
         (''http://b'', \<lparr>client_url = ''http://b'', client_id = 2,
            status = TRAINING_FINISHED, model_params = Some (Weights [3, 20])\<rparr>)],
      server_status = CLIENTS_TRAINING,
      round_n = 1\<rparr>
   \<and> np_stack_mean idealised_library (map model_params (finished_clients (training_clients
     \<lparr>mnist_model_params = Some (WeightsBias [0] [0]),
      chest_x_ray_model_params = None,
      training_clients =
        [(''http://a'', \<lparr>client_url = ''http://a'', client_id = 1,
            status = TRAINING_FINISHED, model_params = Some (Weights [1, 10])\<rparr>),
         (''http://b'', \<lparr>client_url = ''http://b'', client_id = 2,
            status = TRAINING_FINISHED, model_params = Some (Weights [3, 20])\<rparr>)],
      server_status = CLIENTS_TRAINING,
      round_n = 1\<rparr>))) = Inr [2, 15]
   \<and> update_server_model_params_with idealised_library CHEST_X_RAY_PNEUMONIA
     \<lparr>mnist_model_params = Some (WeightsBias [0] [0]),
      chest_x_ray_model_params = None,
      training_clients =
        [(''http://a'', \<lparr>client_url = ''http://a'', client_id = 1,
            status = TRAINING_FINISHED, model_params = Some (Weights [1, 10])\<rparr>),
         (''http://b'', \<lparr>client_url = ''http://b'', client_id = 2,
            status = TRAINING_FINISHED, model_params = Some (Weights [3, 20])\<rparr>)],
      server_status = CLIENTS_TRAINING,
      round_n = 1\<rparr>
   = Inr
     \<lparr>mnist_model_params = Some (WeightsBias [0] [0]),
      chest_x_ray_model_params = Some (Weights [2, 15]),
      training_clients =
        [(''http://a'', \<lparr>client_url = ''http://a'', client_id = 1,
            status = CLIENT_IDLE, model_params = Some (Weights [1, 10])\<rparr>),
         (''http://b'', \<lparr>client_url = ''http://b'', client_id = 2,
            status = CLIENT_IDLE, model_params = Some (Weights [3, 20])\<rparr>)],
      server_status = IDLE,
      round_n = 1\<rparr>"
  using aggregation_over_finished_participants
    [of "\<lparr>mnist_model_params = Some (WeightsBias [0] [0]),
      chest_x_ray_model_params = None,
      training_clients =
        [(''http://a'', \<lparr>client_url = ''http://a'', client_id = 1,
            status = TRAINING_FINISHED, model_params = Some (WeightsBias [1] [5])\<rparr>),
         (''http://b'', \<lparr>client_url = ''http://b'', client_id = 2,
            status = TRAINING_FINISHED, model_params = Some (WeightsBias [2] [5])\<rparr>),
         (''http://c'', \<lparr>client_url = ''http://c'', client_id = 3,
            status = TRAINING_REQUEST_ERROR, model_params = Some (WeightsBias [100] [100])\<rparr>),
         (''http://d'', \<lparr>client_url = ''http://d'', client_id = 4,
            status = TRAINING_FINISHED, model_params = Some (WeightsBias [3] [5])\<rparr>)],
      server_status = CLIENTS_TRAINING,
      round_n = 1\<rparr>"
     MNIST idealised_library "[([1], [5]), ([2], [5]), ([3], [5])]" "[2]" "[5]" "[]"]
   aggregation_over_finished_participants
    [of "\<lparr>mnist_model_params = Some (WeightsBias [0] [0]),
      chest_x_ray_model_params = None,
      training_clients =
        [(''http://a'', \<lparr>client_url = ''http://a'', client_id = 1,
            status = TRAINING_FINISHED, model_params = Some (Weights [1, 10])\<rparr>),
         (''http://b'', \<lparr>client_url = ''http://b'', client_id = 2,
            status = TRAINING_FINISHED, model_params = Some (Weights [3, 20])\<rparr>)],
      server_status = CLIENTS_TRAINING,
      round_n = 1\<rparr>"
     MNIST idealised_library "[]" "[]" "[]" "[2, 15]"]
  by (simp add: can_update_central_model_params_def idealised_library_def
      weights_and_bias_def stack_mean_def numeral_2_eq_2)

text \<open>
  C3 as stated fails: after an aggregation with one finished and one errored participant
  the errored participant is still in \<open>TRAINING_REQUEST_ERROR\<close>, not idle.
\<close>

theorem errored_participant_not_reset:
  "update_weights ''http://a'' MNIST (Inr (WeightsBias [1] [1]))
     (final_state (fst (start_training MNIST
        [(''http://a'', Ack 200), (''http://b'', Ack 500)]
        (register_client ''http://b'' (register_client ''http://a'' (init_server [0] [0]))))))
   = (Response 200,
      \<lparr>mnist_model_params = Some (WeightsBias [1] [1]),
       chest_x_ray_model_params = None,
       training_clients =
         [(''http://a'', \<lparr>client_url = ''http://a'', client_id = 1,
             status = CLIENT_IDLE, model_params = Some (WeightsBias [1] [1])\<rparr>),
          (''http://b'', \<lparr>client_url = ''http://b'', client_id = 2,
             status = TRAINING_REQUEST_ERROR, model_params = None\<rparr>)],
       server_status = IDLE,
       round_n = 1\<rparr>)"
  by (simp add: coordinator_defs)

subsection \<open>Dispatch failures\<close>

lemma can_update_loop_put:
  "can_update_loop (AList.map_entry url (\<lambda>c. c\<lparr>model_params := p\<rparr>) cs) = can_update_loop cs"
  by (induction cs rule: can_update_loop.induct) auto

lemma collect_mnist_put:
  assumes "\<And>c. map_of cs url = Some c \<Longrightarrow> status c \<noteq> TRAINING_FINISHED"
  shows "collect_mnist (AList.map_entry url (\<lambda>c. c\<lparr>model_params := p\<rparr>) cs) =
     (case collect_mnist cs of
        Inl (e, cs') \<Rightarrow> Inl (e, AList.map_entry url (\<lambda>c. c\<lparr>model_params := p\<rparr>) cs')
      | Inr (ws, bs, cs') \<Rightarrow> Inr (ws, bs, AList.map_entry url (\<lambda>c. c\<lparr>model_params := p\<rparr>) cs'))"
  using assms
proof (induction cs)
  case Nil
  then show ?case by simp
next
  case (Cons a cs)
  obtain u c where a: "a = (u, c)" by (cases a)
  show ?case
  proof (cases "u = url")
    case True
    with Cons.prems a have "status c \<noteq> TRAINING_FINISHED" by simp
    with True a show ?thesis by (auto split: sum.splits)
  next
    case False
    with Cons.prems a have "\<And>c. map_of cs url = Some c \<Longrightarrow> status c \<noteq> TRAINING_FINISHED"
      by simp
    from Cons.IH [OF this] False a show ?thesis
      by (auto split: sum.splits option.splits params.splits)
  qed
qed

lemma collect_chest_put:
  assumes "\<And>c. map_of cs url = Some c \<Longrightarrow> status c \<noteq> TRAINING_FINISHED"
  shows "collect_chest (AList.map_entry url (\<lambda>c. c\<lparr>model_params := p\<rparr>) cs) =
     (case collect_chest cs of
        (ps, cs') \<Rightarrow> (ps, AList.map_entry url (\<lambda>c. c\<lparr>model_params := p\<rparr>) cs'))"
  using assms
proof (induction cs)
  case Nil
  then show ?case by simp
next
  case (Cons a cs)
  obtain u c where a: "a = (u, c)" by (cases a)
  show ?case
  proof (cases "u = url")
    case True
    with Cons.prems a have "status c \<noteq> TRAINING_FINISHED" by simp
    with True a show ?thesis by (auto split: prod.splits)
  next
    case False
    with Cons.prems a have "\<And>c. map_of cs url = Some c \<Longrightarrow> status c \<noteq> TRAINING_FINISHED"
      by simp
    from Cons.IH [OF this] False a show ?thesis
      by (auto split: prod.splits)
  qed
qed

lemma update_server_put:
  assumes "\<And>c. map_of (training_clients s) url = Some c \<Longrightarrow> status c \<noteq> TRAINING_FINISHED"
  shows "update_server_model_params tt (put_params url p s) =
     (case update_server_model_params tt s of
        Inl (e, s') \<Rightarrow> Inl (e, put_params url p s')
      | Inr s' \<Rightarrow> Inr (put_params url p s'))"
proof -
  note m = collect_mnist_put [of "training_clients s" url p, OF assms]
  note c = collect_chest_put [of "training_clients s" url p, OF assms]
  show ?thesis
  proof (cases "can_update_central_model_params s")
    case False
    then show ?thesis
      by (simp add: update_server_model_params_def put_params_def
          can_update_central_model_params_def can_update_loop_put)
  next
    case q: True
    then have q': "can_update_central_model_params (put_params url p s)"
      by (simp add: put_params_def can_update_central_model_params_def can_update_loop_put)
    show ?thesis
    proof (cases "tt = MNIST \<or> tt = DETERMINISTIC_MNIST")
      case True
      with q q' m show ?thesis
        by (cases "collect_mnist (training_clients s)")
           (auto simp: update_server_model_params_def Let_def put_params_def
             split: option.splits)
    next
      case nm: False
      show ?thesis
      proof (cases "tt = CHEST_X_RAY_PNEUMONIA")
        case True
        with q q' c show ?thesis
          by (cases "collect_chest (training_clients s)")
             (auto simp: update_server_model_params_def Let_def put_params_def
               split: option.splits)
      next
        case False
        with nm q q' show ?thesis
          by (auto simp: update_server_model_params_def Let_def put_params_def)
      qed
    qed
  qed
qed


lemma set_status_twice:
  "AList.map_entry url (\<lambda>c. c\<lparr>status := st'\<rparr>) (AList.map_entry url (\<lambda>c. c\<lparr>status := st\<rparr>) cs) =
   AList.map_entry url (\<lambda>c. c\<lparr>status := st'\<rparr>) cs"
  by (induction cs) auto

lemma request_error_is_aggregation:
  "code \<noteq> 200 \<Longrightarrow>
   do_training_client_request tt url (Ack code) s =
     update_server_model_params tt (set_client_status url TRAINING_REQUEST_ERROR s)"
  by (simp add: do_training_client_request_def request_begin_def request_end_def
      set_client_status_def set_status_twice)

lemma map_of_set_status:
  "map_of cs url = Some c \<Longrightarrow>
   map_of (AList.map_entry url (\<lambda>c. c\<lparr>status := st\<rparr>) cs) url = Some (c\<lparr>status := st\<rparr>)"
  by (simp add: map_of_map_entry)

lemma quorum_after_error:
  assumes "distinct (map fst cs)" and "map_of cs url = Some c"
  shows "can_update_loop (AList.map_entry url (\<lambda>c. c\<lparr>status := TRAINING_REQUEST_ERROR\<rparr>) cs) \<longleftrightarrow>
     (\<forall>(u, c')\<in>set cs. u \<noteq> url \<longrightarrow>
        status c' = TRAINING_FINISHED \<or> status c' = TRAINING_REQUEST_ERROR)"
  using assms
proof (induction cs)
  case Nil
  then show ?case by simp
next
  case (Cons a cs)
  obtain u d where a: "a = (u, d)" by (cases a)
  show ?case
  proof (cases "u = url")
    case True
    with Cons.prems a have "url \<notin> fst ` set cs" by simp
    then have "\<forall>(v, c')\<in>set cs. v \<noteq> url" by force
    with True a show ?thesis by (auto simp: can_update_loop_iff)
  next
    case False
    with Cons.prems a have "distinct (map fst cs)" "map_of cs url = Some c" by simp_all
    from Cons.IH [OF this] False a show ?thesis by auto
  qed
qed

lemma collect_mnist_keeps:
  assumes "map_of cs url = Some c" and "status c \<noteq> TRAINING_FINISHED"
  shows "case collect_mnist cs of
           Inl (e, cs') \<Rightarrow> map_of cs' url = Some c
         | Inr (ws, bs, cs') \<Rightarrow> map_of cs' url = Some c"
  using assms
proof (induction cs)
  case Nil
  then show ?case by simp
next
  case (Cons a cs)
  obtain u d where a: "a = (u, d)" by (cases a)
  show ?case
  proof (cases "u = url")
    case True
    with Cons.prems a show ?thesis by (auto split: sum.splits)
  next
    case False
    with Cons.prems a have "map_of cs url = Some c" by simp
    from Cons.IH [OF this Cons.prems(2)] False a Cons.prems show ?thesis
      by (auto split: sum.splits option.splits params.splits)
  qed
qed

lemma reset_finished_keeps:
  "map_of cs url = Some c \<Longrightarrow> status c \<noteq> TRAINING_FINISHED \<Longrightarrow>
   map_of (reset_finished cs) url = Some c"
  by (induction cs) (auto split: if_splits)

lemma update_server_keeps:
  assumes "map_of (training_clients s) url = Some c" and "status c \<noteq> TRAINING_FINISHED"
  shows "map_of (training_clients (final_state (update_server_model_params tt s))) url = Some c"
proof (cases "can_update_central_model_params s")
  case False
  with assms show ?thesis by (simp add: update_server_model_params_def)
next
  case q: True
  show ?thesis
  proof (cases "tt = MNIST \<or> tt = DETERMINISTIC_MNIST")
    case True
    with q collect_mnist_keeps [OF assms] show ?thesis
      by (cases "collect_mnist (training_clients s)")
         (auto simp: update_server_model_params_def Let_def split: option.splits)
  next
    case nm: False
    show ?thesis
    proof (cases "tt = CHEST_X_RAY_PNEUMONIA")
      case True
      obtain ps cs where c: "collect_chest (training_clients s) = (ps, cs)"
        by (cases "collect_chest (training_clients s)")
      with collect_chest_registry [of "training_clients s"]
      have "cs = reset_finished (training_clients s)" by simp
      with reset_finished_keeps [OF assms] have "map_of cs url = Some c" by simp
      with q True c show ?thesis
        by (auto simp: update_server_model_params_def Let_def split: option.splits)
    next
      case False
      with nm q assms show ?thesis
        by (auto simp: update_server_model_params_def Let_def)
    qed
  qed
qed

lemma final_state_put:
  "final_state (case r of Inl (e, s') \<Rightarrow> Inl (e, put_params url p s')
                | Inr s' \<Rightarrow> Inr (put_params url p s')) = put_params url p (final_state r)"
  by (cases r) (auto simp: final_state_def)

lemma isl_put:
  "isl (case r of Inl (e, s') \<Rightarrow> Inl (e, put_params url p s')
         | Inr s' \<Rightarrow> Inr (put_params url p s')) = isl r"
  by (cases r) auto

lemma set_status_put:
  "set_client_status url st (put_params url p s) = put_params url p (set_client_status url st s)"
proof -
  have h: "AList.map_entry url (\<lambda>c. c\<lparr>status := st\<rparr>) (AList.map_entry url (\<lambda>c. c\<lparr>model_params := p\<rparr>) cs) =
        AList.map_entry url (\<lambda>c. c\<lparr>model_params := p\<rparr>) (AList.map_entry url (\<lambda>c. c\<lparr>status := st\<rparr>) cs)"
    for cs :: "tensor registry"
    by (induction cs) auto
  show ?thesis by (simp add: set_client_status_def put_params_def h)
qed

text \<open>
  A dispatch answered with a status other than 200 is handled: the participant is put in
  \<open>TRAINING_REQUEST_ERROR\<close> and the aggregation is attempted at once on that state; the
  participant is still in \<open>TRAINING_REQUEST_ERROR\<close> when the call ends. The quorum
  predicate then holds exactly when every other participant is finished or errored, and
  the parameters stored in the errored participant's record have no influence on the
  central parameters or on whether the aggregation raises.
\<close>

theorem dispatch_rejection_counts_but_contributes_nothing:
  assumes "code \<noteq> 200"
    and "map_of (training_clients s) url = Some c"
    and "distinct (map fst (training_clients s))"
  shows
  "do_training_client_request tt url (Ack code) s =
     update_server_model_params tt (set_client_status url TRAINING_REQUEST_ERROR s)
   \<and> map_of (training_clients (set_client_status url TRAINING_REQUEST_ERROR s)) url =
       Some (c\<lparr>status := TRAINING_REQUEST_ERROR\<rparr>)
   \<and> map_of (training_clients (final_state (do_training_client_request tt url (Ack code) s))) url =
       Some (c\<lparr>status := TRAINING_REQUEST_ERROR\<rparr>)
   \<and> (can_update_central_model_params (set_client_status url TRAINING_REQUEST_ERROR s) \<longleftrightarrow>
       (\<forall>(u, c')\<in>set (training_clients s). u \<noteq> url \<longrightarrow>
          status c' = TRAINING_FINISHED \<or> status c' = TRAINING_REQUEST_ERROR))
   \<and> mnist_model_params
         (final_state (do_training_client_request tt url (Ack code) (put_params url p s))) =
       mnist_model_params (final_state (do_training_client_request tt url (Ack code) s))
   \<and> chest_x_ray_model_params
         (final_state (do_training_client_request tt url (Ack code) (put_params url p s))) =
       chest_x_ray_model_params (final_state (do_training_client_request tt url (Ack code) s))
   \<and> isl (do_training_client_request tt url (Ack code) (put_params url p s)) =
       isl (do_training_client_request tt url (Ack code) s)"
proof -
  let ?s1 = "set_client_status url TRAINING_REQUEST_ERROR s"
  have agg: "do_training_client_request tt url (Ack code) x =
       update_server_model_params tt (set_client_status url TRAINING_REQUEST_ERROR x)" for x
    using assms(1) by (rule request_error_is_aggregation)
  have st: "map_of (training_clients ?s1) url = Some (c\<lparr>status := TRAINING_REQUEST_ERROR\<rparr>)"
    using assms(2) by (simp add: set_client_status_def map_of_set_status)
  have fin: "map_of (training_clients (final_state (update_server_model_params tt ?s1))) url =
       Some (c\<lparr>status := TRAINING_REQUEST_ERROR\<rparr>)"
    using st by (rule update_server_keeps) simp
  have q: "can_update_central_model_params ?s1 \<longleftrightarrow>
       (\<forall>(u, c')\<in>set (training_clients s). u \<noteq> url \<longrightarrow>
          status c' = TRAINING_FINISHED \<or> status c' = TRAINING_REQUEST_ERROR)"
    using quorum_after_error [OF assms(3) assms(2)]
    by (simp add: can_update_central_model_params_def set_client_status_def)
  have nf: "\<And>d. map_of (training_clients ?s1) url = Some d \<Longrightarrow> status d \<noteq> TRAINING_FINISHED"
    using st by auto
  have put: "update_server_model_params tt (set_client_status url TRAINING_REQUEST_ERROR (put_params url p s)) =
     (case update_server_model_params tt ?s1 of
        Inl (e, s') \<Rightarrow> Inl (e, put_params url p s')
      | Inr s' \<Rightarrow> Inr (put_params url p s'))"
    using update_server_put [of ?s1 url tt p, OF nf] by (simp add: set_status_put)
  have m: "mnist_model_params (put_params url p x) = mnist_model_params x"
    and ch: "chest_x_ray_model_params (put_params url p x) = chest_x_ray_model_params x" for x
    by (simp_all add: put_params_def)
  show ?thesis
    unfolding agg put final_state_put isl_put m ch
    using st fin q by simp
qed

theorem dispatch_rejection_counts_but_contributes_nothing_witness:
  "(500 :: nat) \<noteq> 200
   \<and> map_of (training_clients
     \<lparr>mnist_model_params = Some (WeightsBias [0] [0]),
      chest_x_ray_model_params = None,
      training_clients =
        [(''http://a'', \<lparr>client_url = ''http://a'', client_id = 1,
            status = TRAINING_FINISHED, model_params = Some (WeightsBias [1] [1])\<rparr>),
         (''http://b'', \<lparr>client_url = ''http://b'', client_id = 2,
            status = TRAINING_REQUESTED, model_params = Some (WeightsBias [7] [7])\<rparr>)],
      server_status = CLIENTS_TRAINING,
      round_n = 1\<rparr>) ''http://b'' =
     Some \<lparr>client_url = ''http://b'', client_id = 2,
            status = TRAINING_REQUESTED, model_params = Some (WeightsBias [7] [7])\<rparr>
   \<and> distinct (map fst (training_clients
     \<lparr>mnist_model_params = Some (WeightsBias [0] [0]),
      chest_x_ray_model_params = None,
      training_clients =
        [(''http://a'', \<lparr>client_url = ''http://a'', client_id = 1,
            status = TRAINING_FINISHED, model_params = Some (WeightsBias [1] [1])\<rparr>),
         (''http://b'', \<lparr>client_url = ''http://b'', client_id = 2,
            status = TRAINING_REQUESTED, model_params = Some (WeightsBias [7] [7])\<rparr>)],
      server_status = CLIENTS_TRAINING,
      round_n = 1\<rparr>))
   \<and> do_training_client_request MNIST ''http://b'' (Ack 500)
     \<lparr>mnist_model_params = Some (WeightsBias [0] [0]),
      chest_x_ray_model_params = None,
      training_clients =
        [(''http://a'', \<lparr>client_url = ''http://a'', client_id = 1,
            status = TRAINING_FINISHED, model_params = Some (WeightsBias [1] [1])\<rparr>),
         (''http://b'', \<lparr>client_url = ''http://b'', client_id = 2,
            status = TRAINING_REQUESTED, model_params = Some (WeightsBias [7] [7])\<rparr>)],
      server_status = CLIENTS_TRAINING,
      round_n = 1\<rparr>
   = Inr
     \<lparr>mnist_model_params = Some (WeightsBias [1] [1]),
      chest_x_ray_model_params = None,
      training_clients =
        [(''http://a'', \<lparr>client_url = ''http://a'', client_id = 1,
            status = CLIENT_IDLE, model_params = Some (WeightsBias [1] [1])\<rparr>),
         (''http://b'', \<lparr>client_url = ''http://b'', client_id = 2,
            status = TRAINING_REQUEST_ERROR, model_params = Some (WeightsBias [7] [7])\<rparr>)],
      server_status = IDLE,
      round_n = 1\<rparr>
   \<and> do_training_client_request MNIST ''http://b'' (Ack 500)
     (put_params ''http://b'' (Some (WeightsBias [9] [9]))
     \<lparr>mnist_model_params = Some (WeightsBias [0] [0]),
      chest_x_ray_model_params = None,
      training_clients =
        [(''http://a'', \<lparr>client_url = ''http://a'', client_id = 1,
            status = TRAINING_FINISHED, model_params = Some (WeightsBias [1] [1])\<rparr>),
         (''http://b'', \<lparr>client_url = ''http://b'', client_id = 2,
            status = TRAINING_REQUESTED, model_params = Some (WeightsBias [7] [7])\<rparr>)],
      server_status = CLIENTS_TRAINING,
      round_n = 1\<rparr>)
   = Inr
     \<lparr>mnist_model_params = Some (WeightsBias [1] [1]),
      chest_x_ray_model_params = None,
      training_clients =
        [(''http://a'', \<lparr>client_url = ''http://a'', client_id = 1,
            status = CLIENT_IDLE, model_params = Some (WeightsBias [1] [1])\<rparr>),
         (''http://b'', \<lparr>client_url = ''http://b'', client_id = 2,
            status = TRAINING_REQUEST_ERROR, model_params = Some (WeightsBias [9] [9])\<rparr>)],
      server_status = IDLE,
      round_n = 1\<rparr>"
  using dispatch_rejection_counts_but_contributes_nothing
    [of 500
     "\<lparr>mnist_model_params = Some (WeightsBias [0] [0]),
      chest_x_ray_model_params = None,
      training_clients =
        [(''http://a'', \<lparr>client_url = ''http://a'', client_id = 1,
            status = TRAINING_FINISHED, model_params = Some (WeightsBias [1] [1])\<rparr>),
         (''http://b'', \<lparr>client_url = ''http://b'', client_id = 2,
            status = TRAINING_REQUESTED, model_params = Some (WeightsBias [7] [7])\<rparr>)],
      server_status = CLIENTS_TRAINING,
      round_n = 1\<rparr>"
     "''http://b''"
     "\<lparr>client_url = ''http://b'', client_id = 2,
            status = TRAINING_REQUESTED, model_params = Some (WeightsBias [7] [7])\<rparr>"
     MNIST "Some (WeightsBias [9] [9])"]
  by (simp add: coordinator_defs put_params_def)

text \<open>
  C4. A participant whose dispatch fails, by a non-success acknowledgement or by a
  transport failure, should end in \<open>TRAINING_REQUEST_ERROR\<close>, with the aggregation
  attempted at once. The code does so for a non-success acknowledgement only. With one
  registered participant whose outbound call meets a transport failure, the exception of
  \<open>session.post\<close> is caught nowhere: the participant stays in \<open>TRAINING_REQUESTED\<close>, the
  server in \<open>CLIENTS_TRAINING\<close>, no aggregation is attempted and \<open>start_training\<close> ends
  with the exception.
\<close>

theorem transport_failure_leaves_requested:
  "start_training MNIST [(''http://a'', TransportFailure)]
     (register_client ''http://a'' (init_server [0] [0])) =
   (Inl (ClientConnectionError,
      \<lparr>mnist_model_params = Some (WeightsBias [0] [0]),
       chest_x_ray_model_params = None,
       training_clients =
         [(''http://a'',
           \<lparr>client_url = ''http://a'', client_id = 1,
            status = TRAINING_REQUESTED, model_params = None\<rparr>)],
       server_status = CLIENTS_TRAINING,
       round_n = 1\<rparr>),
    [(''http://a'', 1)])"
  by (simp add: coordinator_defs)

subsection \<open>Registration\<close>

lemma update_absent: "map_of cs k = None \<Longrightarrow> AList.update k v cs = cs @ [(k, v)]"
  by (induction cs) (auto split: if_splits)

lemma ids_map_entry_status:
  "map (client_id \<circ> snd) (AList.map_entry url (\<lambda>c. c\<lparr>status := st\<rparr>) cs) =
   map (client_id \<circ> snd) cs"
  by (induction cs) auto

lemma length_map_entry: "length (AList.map_entry k f cs) = length cs"
  by (induction cs) auto

lemma register_known:
  "map_of (training_clients s) url = Some c \<Longrightarrow>
   map_of (training_clients (register_client url s)) url = Some (c\<lparr>status := CLIENT_IDLE\<rparr>)"
  by (simp add: register_client_def set_client_status_def map_of_map_entry)

lemma register_unknown:
  "map_of (training_clients s) url = None \<Longrightarrow>
   training_clients (register_client url s) =
     training_clients s @ [(url, new_training_client url (length (training_clients s) + 1))]"
  by (simp add: register_client_def update_absent)

lemma register_other:
  "u \<noteq> url \<Longrightarrow>
   map_of (training_clients (register_client url s)) u = map_of (training_clients s) u"
  by (simp add: register_client_def set_client_status_def map_of_map_entry update_conv'
      split: option.splits)

lemma unregister_other:
  "u \<noteq> url \<Longrightarrow>
   map_of (training_clients (unregister_client url s)) u = map_of (training_clients s) u"
  by (simp add: unregister_client_def delete_conv')

lemma register_ids_invariant:
  assumes "map (client_id \<circ> snd) (training_clients s) = [1..<length (training_clients s) + 1]"
  shows "map (client_id \<circ> snd) (training_clients (register_client url s)) =
         [1..<length (training_clients (register_client url s)) + 1]"
proof (cases "map_of (training_clients s) url")
  case None
  with assms show ?thesis
    by (simp add: register_unknown new_training_client_def)
next
  case (Some c)
  with assms show ?thesis
    by (simp add: register_client_def set_client_status_def ids_map_entry_status
        length_map_entry)
qed

lemma fold_register_ids_invariant:
  "map (client_id \<circ> snd) (training_clients s) = [1..<length (training_clients s) + 1] \<Longrightarrow>
   map (client_id \<circ> snd) (training_clients (fold register_client urls s)) =
     [1..<length (training_clients (fold register_client urls s)) + 1]"
proof (induction urls arbitrary: s)
  case Nil
  then show ?case by simp
next
  case (Cons url urls)
  from Cons.IH [OF register_ids_invariant [OF Cons.prems]] show ?case by simp
qed

lemma registrations_distinct_ids:
  "distinct (map (client_id \<circ> snd)
     (training_clients (fold register_client urls (init_server w b))))"
proof -
  have "map (client_id \<circ> snd) (training_clients (init_server w b)) =
        [1..<length (training_clients (init_server w b)) + 1]"
    by (simp add: init_server_def)
  from fold_register_ids_invariant [OF this, of urls] show ?thesis
    by (simp only: distinct_upt)
qed

lemma registry_operation_keeps_id:
  assumes "map_of (training_clients s) u = Some c" and "op \<noteq> Unregister u"
  shows "\<exists>c'. map_of (training_clients (apply_registry_operation op s)) u = Some c'
            \<and> client_id c' = client_id c"
proof (cases op)
  case (Register url)
  show ?thesis
  proof (cases "u = url")
    case True
    with assms(1) register_known [of s url c] Register show ?thesis by simp
  next
    case False
    with assms(1) register_other [of u url s] Register show ?thesis by simp
  qed
next
  case (Unregister url)
  with assms(2) have "u \<noteq> url" by auto
  with assms(1) Unregister show ?thesis by (simp add: unregister_other)
qed

lemma registry_operations_keep_id:
  "map_of (training_clients s) u = Some c \<Longrightarrow> Unregister u \<notin> set ops \<Longrightarrow>
   \<exists>c'. map_of (training_clients (fold apply_registry_operation ops s)) u = Some c'
        \<and> client_id c' = client_id c"
proof (induction ops arbitrary: s c)
  case Nil
  then show ?case by simp
next
  case (Cons op ops)
  from Cons.prems have "op \<noteq> Unregister u" by auto
  from registry_operation_keeps_id [OF Cons.prems(1) this] obtain c1 where
    c1: "map_of (training_clients (apply_registry_operation op s)) u = Some c1"
    and id1: "client_id c1 = client_id c"
    by blast
  from Cons.prems have "Unregister u \<notin> set ops" by simp
  from Cons.IH [OF c1 this] id1 show ?case by simp
qed

text \<open>
  C5 (as amended). \<open>register_client\<close> is a total state transformer. For an unknown url it
  appends a record with id \<open>count + 1\<close> and idle status; for a known url it keeps the
  record, id included, and resets its status to idle. Along every sequence of register
  and unregister operations a registered participant keeps its id until it is itself
  unregistered. Along every sequence of registrations from the initial server the ids of
  the registered participants are pairwise different.
\<close>

theorem registration_assigns_stable_ids:
  "(map_of (training_clients s) url = None \<longrightarrow>
      training_clients (register_client url s) =
        training_clients s @
          [(url, \<lparr>client_url = url, client_id = length (training_clients s) + 1,
                  status = CLIENT_IDLE, model_params = None\<rparr>)])
   \<and> (map_of (training_clients s) url = Some c \<longrightarrow>
      map_of (training_clients (register_client url s)) url = Some (c\<lparr>status := CLIENT_IDLE\<rparr>)
      \<and> length (training_clients (register_client url s)) = length (training_clients s))
   \<and> (map_of (training_clients s) u = Some c \<and> Unregister u \<notin> set ops \<longrightarrow>
      (\<exists>c'. map_of (training_clients (fold apply_registry_operation ops s)) u = Some c'
            \<and> client_id c' = client_id c))
   \<and> distinct (map (client_id \<circ> snd)
        (training_clients (fold register_client urls (init_server w b))))"
proof (intro conjI impI)
  assume "map_of (training_clients s) url = None"
  then show "training_clients (register_client url s) =
        training_clients s @
          [(url, \<lparr>client_url = url, client_id = length (training_clients s) + 1,
                  status = CLIENT_IDLE, model_params = None\<rparr>)]"
    by (simp add: register_unknown new_training_client_def)
next
  assume "map_of (training_clients s) url = Some c"
  then show "map_of (training_clients (register_client url s)) url = Some (c\<lparr>status := CLIENT_IDLE\<rparr>)"
    by (rule register_known)
next
  assume "map_of (training_clients s) url = Some c"
  then show "length (training_clients (register_client url s)) = length (training_clients s)"
    by (simp add: register_client_def set_client_status_def length_map_entry)
next
  assume "map_of (training_clients s) u = Some c \<and> Unregister u \<notin> set ops"
  then show "\<exists>c'. map_of (training_clients (fold apply_registry_operation ops s)) u = Some c'
            \<and> client_id c' = client_id c"
    using registry_operations_keep_id [of s u c ops] by simp
next
  show "distinct (map (client_id \<circ> snd)
        (training_clients (fold register_client urls (init_server w b))))"
    by (rule registrations_distinct_ids)
qed

theorem registration_assigns_stable_ids_witness:
  "map_of (training_clients (init_server [0] [0])) ''http://a'' = None
   \<and> training_clients (register_client ''http://a'' (init_server [0] [0])) =
       [(''http://a'', \<lparr>client_url = ''http://a'', client_id = 1,
                        status = CLIENT_IDLE, model_params = None\<rparr>)]
   \<and> map_of (training_clients
        (set_client_status ''http://a'' TRAINING_FINISHED
          (register_client ''http://b'' (register_client ''http://a'' (init_server [0] [0])))))
        ''http://a'' =
       Some \<lparr>client_url = ''http://a'', client_id = 1,
             status = TRAINING_FINISHED, model_params = None\<rparr>
   \<and> map_of (training_clients (register_client ''http://a''
        (set_client_status ''http://a'' TRAINING_FINISHED
          (register_client ''http://b'' (register_client ''http://a'' (init_server [0] [0]))))))
        ''http://a'' =
       Some \<lparr>client_url = ''http://a'', client_id = 1,
             status = CLIENT_IDLE, model_params = None\<rparr>
   \<and> Unregister ''http://a'' \<notin> set [Unregister ''http://b'', Register ''http://c'']
   \<and> map_of (training_clients
        (fold apply_registry_operation [Unregister ''http://b'', Register ''http://c'']
          (set_client_status ''http://a'' TRAINING_FINISHED
            (register_client ''http://b'' (register_client ''http://a'' (init_server [0] [0]))))))
        ''http://a'' =
       Some \<lparr>client_url = ''http://a'', client_id = 1,
             status = TRAINING_FINISHED, model_params = None\<rparr>"
  using registration_assigns_stable_ids
    [of "init_server [0] [0]" "''http://a''" "new_training_client ''http://a'' 1"
        "''http://a''" "[]" "[]" "[0]" "[0]"]
    registration_assigns_stable_ids
    [of "set_client_status ''http://a'' TRAINING_FINISHED
          (register_client ''http://b'' (register_client ''http://a'' (init_server [0] [0])))"
        "''http://a''"
        "\<lparr>client_url = ''http://a'', client_id = 1,
             status = TRAINING_FINISHED, model_params = None\<rparr>"
        "''http://a''" "[Unregister ''http://b'', Register ''http://c'']" "[]" "[0]" "[0]"]
  by (simp add: coordinator_defs)

text \<open>
  C5 as stated fails: with an unregistration in between, \<open>count + 1\<close> hands out an id
  that is still in use.
\<close>

theorem identifiers_collide_after_unregistration:
  "training_clients
     (register_client ''http://c''
       (unregister_client ''http://a''
         (register_client ''http://b''
           (register_client ''http://a'' (init_server [0] [0]))))) =
   [(''http://b'', \<lparr>client_url = ''http://b'', client_id = 2,
                    status = CLIENT_IDLE, model_params = None\<rparr>),
    (''http://c'', \<lparr>client_url = ''http://c'', client_id = 2,
                    status = CLIENT_IDLE, model_params = None\<rparr>)]"
  by (simp add: coordinator_defs)

subsection \<open>The registry is a dict\<close>

text \<open>
  No operation of the coordinator changes the urls of the registry or their order, apart
  from registration and unregistration; in every state the coordinator can reach from its
  initial one, the urls of the registry are pairwise different.
\<close>

lemma keys_map_entry: "map fst (AList.map_entry k f cs) = map fst cs"
  by (induction cs) auto

lemma keys_reset_finished: "map fst (reset_finished cs) = map fst cs"
  by (induction cs) auto

lemma keys_collect_mnist:
  "case collect_mnist cs of
     Inl (e, cs') \<Rightarrow> map fst cs' = map fst cs
   | Inr (ws, bs, cs') \<Rightarrow> map fst cs' = map fst cs"
proof (induction cs)
  case Nil
  then show ?case by simp
next
  case (Cons a cs)
  obtain u c where a: "a = (u, c)" by (cases a)
  show ?case
  proof (cases "collect_mnist cs")
    case (Inl x)
    then obtain e cs' where x: "collect_mnist cs = Inl (e, cs')" by (cases x) simp
    with Cons.IH have "map fst cs' = map fst cs" by simp
    with x a show ?thesis by (simp split: option.splits params.splits)
  next
    case (Inr x)
    then obtain ws bs cs' where x: "collect_mnist cs = Inr (ws, bs, cs')" by (cases x) auto
    with Cons.IH have "map fst cs' = map fst cs" by simp
    with x a show ?thesis by (simp split: option.splits params.splits)
  qed
qed

lemma keys_update_server:
  "map fst (training_clients (final_state (update_server_model_params tt s))) =
   map fst (training_clients s)"
proof (cases "can_update_central_model_params s")
  case False
  then show ?thesis by (simp add: update_server_model_params_def)
next
  case q: True
  show ?thesis
  proof (cases "tt = MNIST \<or> tt = DETERMINISTIC_MNIST")
    case True
    with q keys_collect_mnist [of "training_clients s"] show ?thesis
      by (cases "collect_mnist (training_clients s)")
         (auto simp: update_server_model_params_def Let_def split: option.splits)
  next
    case nm: False
    show ?thesis
    proof (cases "tt = CHEST_X_RAY_PNEUMONIA")
      case True
      obtain ps cs where c: "collect_chest (training_clients s) = (ps, cs)"
        by (cases "collect_chest (training_clients s)")
      with collect_chest_registry [of "training_clients s"]
      have "map fst cs = map fst (training_clients s)" by (simp add: keys_reset_finished)
      with q True c show ?thesis
        by (auto simp: update_server_model_params_def Let_def split: option.splits)
    next
      case False
      with nm q show ?thesis by (auto simp: update_server_model_params_def Let_def)
    qed
  qed
qed

lemma keys_request_end:
  "map fst (training_clients (final_state (request_end tt u r s))) = map fst (training_clients s)"
proof (cases r)
  case (Ack code)
  then show ?thesis
    using keys_update_server [of tt "set_client_status u TRAINING_REQUEST_ERROR s"]
    by (simp add: request_end_def set_client_status_def keys_map_entry)
next
  case TransportFailure
  then show ?thesis by (simp add: request_end_def)
qed

lemma keys_gather:
  "map fst (training_clients (final_state (gather tt arrivals s))) = map fst (training_clients s)"
proof (induction arrivals arbitrary: s)
  case Nil
  then show ?case by simp
next
  case (Cons a arrivals)
  obtain u r where a: "a = (u, r)" by (cases a)
  show ?case
  proof (cases "request_end tt u r s")
    case (Inl e)
    then show ?thesis using keys_request_end [of tt u r s] a by simp
  next
    case (Inr s')
    then have "map fst (training_clients s') = map fst (training_clients s)"
      using keys_request_end [of tt u r s] by simp
    then show ?thesis using Cons.IH [of s'] Inr a by simp
  qed
qed

lemma keys_fold_request_begin:
  "map fst (training_clients (fold request_begin us s)) = map fst (training_clients s)"
  by (induction us arbitrary: s)
     (simp_all add: request_begin_def set_client_status_def keys_map_entry)

lemma keys_start_training:
  "map fst (training_clients (final_state (fst (start_training tt arrivals s)))) =
   map fst (training_clients s)"
proof (cases "server_status s = IDLE \<and> training_clients s \<noteq> []")
  case False
  then show ?thesis by (auto simp: start_training_def)
next
  case True
  show ?thesis
  proof (cases "select_config tt")
    case None
    with True show ?thesis by (simp add: start_training_def)
  next
    case (Some cfg)
    with True show ?thesis
      by (simp add: start_training_def Let_def keys_gather keys_fold_request_begin)
  qed
qed

lemma keys_finish_round:
  "map fst (training_clients (finish_round tt u s)) = map fst (training_clients s)"
  by (simp add: finish_round_def Let_def set_client_status_def keys_map_entry comp_def
      case_prod_unfold)

lemma keys_update_weights:
  "map fst (training_clients (snd (update_weights u tt parsed s))) = map fst (training_clients s)"
proof (cases "map_of (training_clients s) u")
  case None
  then show ?thesis by (simp add: update_weights_def)
next
  case (Some c)
  show ?thesis
  proof (cases parsed)
    case (Inl e)
    with Some show ?thesis by (simp add: update_weights_def)
  next
    case (Inr p)
    have r: "map fst (training_clients (final_state (update_client_model_params tt u p s))) =
             map fst (training_clients s)"
      unfolding update_client_model_params_def
      using keys_update_server
        [of tt "s\<lparr>training_clients :=
            AList.map_entry u
              (\<lambda>c. c\<lparr>model_params := Some p, status := TRAINING_FINISHED\<rparr>)
              (training_clients s)\<rparr>"]
      by (simp add: keys_map_entry)
    show ?thesis
    proof (cases "update_client_model_params tt u p s")
      case (Inl es)
      then obtain e s' where "update_client_model_params tt u p s = Inl (e, s')"
        by (cases es) simp
      with r Some Inr show ?thesis by (simp add: update_weights_def)
    next
      case (Inr s')
      with r Some \<open>parsed = Inr p\<close> show ?thesis by (simp add: update_weights_def)
    qed
  qed
qed

lemma distinct_apply_operation:
  assumes "distinct (map fst (training_clients s))"
  shows "distinct (map fst (training_clients (apply_operation op s)))"
proof (cases op)
  case (StartTraining tt arrivals)
  with assms show ?thesis by (simp add: keys_start_training)
next
  case (RegisterClient u)
  with assms show ?thesis
    by (simp add: register_client_def set_client_status_def keys_map_entry distinct_update
        split: option.splits)
next
  case (UnregisterClient u)
  with assms show ?thesis by (simp add: unregister_client_def distinct_delete)
next
  case (UpdateWeights u tt parsed)
  with assms show ?thesis by (simp add: keys_update_weights)
next
  case (FinishRound u tt)
  with assms show ?thesis
    by (simp add: finish_round_route_def keys_finish_round split: option.splits)
qed

lemma registry_keys_distinct:
  "distinct (map fst (training_clients (fold apply_operation ops (init_server w b))))"
proof -
  have "distinct (map fst (training_clients s)) \<Longrightarrow>
        distinct (map fst (training_clients (fold apply_operation ops s)))" for s
    by (induction ops arbitrary: s) (simp_all add: distinct_apply_operation)
  then show ?thesis by (simp add: init_server_def)
qed

subsection \<open>The decentralized round\<close>










subsection \<open>Aggregation passes in a round\<close>

lemma quorum_entry_terminal:
  "can_update_loop cs \<Longrightarrow> map_of cs v = Some c \<Longrightarrow>
   status c = TRAINING_FINISHED \<or> status c = TRAINING_REQUEST_ERROR"
  by (auto simp: can_update_loop_iff dest!: map_of_SomeD)

lemma update_server_no_quorum:
  "\<not> can_update_central_model_params s \<Longrightarrow> update_server_model_params tt s = Inr s"
  by (simp add: update_server_model_params_def)

text \<open>The state on which an event calls the aggregation, and what the event does.\<close>

lemma event_step:
  "\<exists>f. (\<forall>v. v \<noteq> event_url e \<longrightarrow>
          map_of (AList.map_entry (event_url e) f (training_clients s)) v =
          map_of (training_clients s) v)
     \<and> (enters_aggregation e s \<longrightarrow>
          can_update_loop (AList.map_entry (event_url e) f (training_clients s)))
     \<and> (\<not> enters_aggregation e s \<longrightarrow>
          final_state (apply_event e s) = s \<or>
          final_state (apply_event e s) =
            s\<lparr>training_clients := AList.map_entry (event_url e) f (training_clients s)\<rparr>)"
proof (cases e)
  case (ReportResult url tt p)
  then show ?thesis
    by (intro exI [of _ "\<lambda>c. c\<lparr>model_params := Some p, status := TRAINING_FINISHED\<rparr>"])
       (simp add: map_of_map_entry can_update_central_model_params_def
         update_client_model_params_def update_server_no_quorum)
next
  case (DispatchFailure url tt code)
  then show ?thesis
    by (intro exI [of _ "\<lambda>c. c\<lparr>status := TRAINING_REQUEST_ERROR\<rparr>"])
       (auto simp: map_of_map_entry can_update_central_model_params_def
         request_end_def update_server_no_quorum set_client_status_def)
qed

text \<open>An event that does not enter the aggregation leaves the central parameters and the
  server status as they are.\<close>

lemma no_pass_no_update:
  assumes "\<not> enters_aggregation e s"
  shows "mnist_model_params (final_state (apply_event e s)) = mnist_model_params s"
    and "chest_x_ray_model_params (final_state (apply_event e s)) = chest_x_ray_model_params s"
    and "server_status (final_state (apply_event e s)) = server_status s"
proof -
  from event_step [of e s] assms obtain f where
    "final_state (apply_event e s) = s \<or>
     final_state (apply_event e s) =
       s\<lparr>training_clients := AList.map_entry (event_url e) f (training_clients s)\<rparr>"
    by blast
  then show "mnist_model_params (final_state (apply_event e s)) = mnist_model_params s"
    and "chest_x_ray_model_params (final_state (apply_event e s)) = chest_x_ray_model_params s"
    and "server_status (final_state (apply_event e s)) = server_status s"
    by auto
qed

text \<open>
  C2 (as amended). After a \<open>start_training\<close>, along every sequence of result reports and
  dispatch resolutions in which each transition concerns a different participant that is
  in \<open>TRAINING_REQUESTED\<close> when the sequence starts, the aggregation is entered at most
  once.
\<close>

theorem aggregation_at_most_once_per_participant_transition:
  assumes "distinct (map event_url es)"
    and "\<forall>e\<in>set es. \<exists>c. map_of (training_clients s) (event_url e) = Some c
                         \<and> status c = TRAINING_REQUESTED"
  shows "aggregation_passes es s \<le> 1"
  using assms
proof (induction es arbitrary: s)
  case Nil
  then show ?case by simp
next
  case (Cons e es)
  obtain f where
    other: "\<And>v. v \<noteq> event_url e \<Longrightarrow>
       map_of (AList.map_entry (event_url e) f (training_clients s)) v =
       map_of (training_clients s) v"
    and enter: "enters_aggregation e s \<Longrightarrow>
       can_update_loop (AList.map_entry (event_url e) f (training_clients s))"
    and stay: "\<not> enters_aggregation e s \<Longrightarrow>
       final_state (apply_event e s) = s \<or>
       final_state (apply_event e s) =
         s\<lparr>training_clients := AList.map_entry (event_url e) f (training_clients s)\<rparr>"
    using event_step [of e s] by blast
  have pending: "\<exists>c. map_of (training_clients s) (event_url e') = Some c
                     \<and> status c = TRAINING_REQUESTED" if "e' \<in> set es" for e'
    using that Cons.prems(2) by simp
  have differs: "event_url e' \<noteq> event_url e" if "e' \<in> set es" for e'
  proof
    assume eq: "event_url e' = event_url e"
    from that have "event_url e' \<in> event_url ` set es" by (rule imageI)
    then have "event_url e \<in> event_url ` set es" by (simp only: eq)
    with Cons.prems(1) show False by simp
  qed
  show ?case
  proof (cases "enters_aggregation e s")
    case True
    have "es = []"
    proof (rule ccontr)
      assume "es \<noteq> []"
      then obtain e' where e': "e' \<in> set es" by (cases es) auto
      from pending [OF e'] obtain c where
        c: "map_of (training_clients s) (event_url e') = Some c" "status c = TRAINING_REQUESTED"
        by blast
      with other [OF differs [OF e']]
      have "map_of (AList.map_entry (event_url e) f (training_clients s)) (event_url e') = Some c"
        by simp
      from quorum_entry_terminal [OF enter [OF True] this] c(2) show False by simp
    qed
    with True show ?thesis by simp
  next
    case False
    let ?s' = "final_state (apply_event e s)"
    have "\<forall>e'\<in>set es. \<exists>c. map_of (training_clients ?s') (event_url e') = Some c
                         \<and> status c = TRAINING_REQUESTED"
    proof
      fix e' assume e': "e' \<in> set es"
      from stay [OF False] show "\<exists>c. map_of (training_clients ?s') (event_url e') = Some c
                         \<and> status c = TRAINING_REQUESTED"
      proof
        assume "?s' = s"
        with pending [OF e'] show ?thesis by simp
      next
        assume "?s' = s\<lparr>training_clients := AList.map_entry (event_url e) f (training_clients s)\<rparr>"
        with pending [OF e'] other [OF differs [OF e']] show ?thesis by simp
      qed
    qed
    moreover from Cons.prems(1) have "distinct (map event_url es)" by simp
    ultimately have "aggregation_passes es ?s' \<le> 1" by (intro Cons.IH)
    with False show ?thesis by simp
  qed
qed


theorem aggregation_at_most_once_per_participant_transition_witness:
  "distinct (map event_url
     [DispatchFailure ''http://b'' MNIST 500,
      ReportResult ''http://a'' MNIST (WeightsBias [1] [1])])
   \<and> map_of (training_clients
     \<lparr>mnist_model_params = Some (WeightsBias [0] [0]),
      chest_x_ray_model_params = None,
      training_clients =
        [(''http://a'', \<lparr>client_url = ''http://a'', client_id = 1,
            status = TRAINING_REQUESTED, model_params = None\<rparr>),
         (''http://b'', \<lparr>client_url = ''http://b'', client_id = 2,
            status = TRAINING_REQUESTED, model_params = None\<rparr>)],
      server_status = CLIENTS_TRAINING,
      round_n = 1\<rparr>) ''http://b'' =
     Some \<lparr>client_url = ''http://b'', client_id = 2,
            status = TRAINING_REQUESTED, model_params = None\<rparr>
   \<and> map_of (training_clients
     \<lparr>mnist_model_params = Some (WeightsBias [0] [0]),
      chest_x_ray_model_params = None,
      training_clients =
        [(''http://a'', \<lparr>client_url = ''http://a'', client_id = 1,
            status = TRAINING_REQUESTED, model_params = None\<rparr>),
         (''http://b'', \<lparr>client_url = ''http://b'', client_id = 2,
            status = TRAINING_REQUESTED, model_params = None\<rparr>)],
      server_status = CLIENTS_TRAINING,
      round_n = 1\<rparr>) ''http://a'' =
     Some \<lparr>client_url = ''http://a'', client_id = 1,
            status = TRAINING_REQUESTED, model_params = None\<rparr>
   \<and> aggregation_passes
     [DispatchFailure ''http://b'' MNIST 500,
      ReportResult ''http://a'' MNIST (WeightsBias [1] [1])]
     \<lparr>mnist_model_params = Some (WeightsBias [0] [0]),
      chest_x_ray_model_params = None,
      training_clients =
        [(''http://a'', \<lparr>client_url = ''http://a'', client_id = 1,
            status = TRAINING_REQUESTED, model_params = None\<rparr>),
         (''http://b'', \<lparr>client_url = ''http://b'', client_id = 2,
            status = TRAINING_REQUESTED, model_params = None\<rparr>)],
      server_status = CLIENTS_TRAINING,
      round_n = 1\<rparr> \<le> 1
   \<and> aggregation_passes
     [DispatchFailure ''http://b'' MNIST 500,
      ReportResult ''http://a'' MNIST (WeightsBias [1] [1])]
     \<lparr>mnist_model_params = Some (WeightsBias [0] [0]),
      chest_x_ray_model_params = None,
      training_clients =
        [(''http://a'', \<lparr>client_url = ''http://a'', client_id = 1,
            status = TRAINING_REQUESTED, model_params = None\<rparr>),
         (''http://b'', \<lparr>client_url = ''http://b'', client_id = 2,
            status = TRAINING_REQUESTED, model_params = None\<rparr>)],
      server_status = CLIENTS_TRAINING,
      round_n = 1\<rparr> = 1"
  using aggregation_at_most_once_per_participant_transition
    [of "[DispatchFailure ''http://b'' MNIST 500,
      ReportResult ''http://a'' MNIST (WeightsBias [1] [1])]"
     "\<lparr>mnist_model_params = Some (WeightsBias [0] [0]),
      chest_x_ray_model_params = None,
      training_clients =
        [(''http://a'', \<lparr>client_url = ''http://a'', client_id = 1,
            status = TRAINING_REQUESTED, model_params = None\<rparr>),
         (''http://b'', \<lparr>client_url = ''http://b'', client_id = 2,
            status = TRAINING_REQUESTED, model_params = None\<rparr>)],
      server_status = CLIENTS_TRAINING,
      round_n = 1\<rparr>"]
  by (simp add: coordinator_defs)

text \<open>
  C2 as stated fails: entry into \<open>UPDATING_MODEL_PARAMS\<close> is guarded by the quorum
  predicate alone, not by the server status. A participant that reports twice after one
  \<open>start_training\<close> makes the server aggregate twice, the second time from \<open>IDLE\<close>, and
  the central parameters are replaced both times.
\<close>

theorem repeated_report_aggregates_twice:
  "update_weights ''http://a'' MNIST (Inr (WeightsBias [1] [1]))
     (final_state (fst (start_training MNIST [(''http://a'', Ack 200)]
        (register_client ''http://a'' (init_server [0] [0])))))
   = (Response 200,
     \<lparr>mnist_model_params = Some (WeightsBias [1] [1]),
      chest_x_ray_model_params = None,
      training_clients =
        [(''http://a'', \<lparr>client_url = ''http://a'', client_id = 1,
            status = CLIENT_IDLE, model_params = Some (WeightsBias [1] [1])\<rparr>)],
      server_status = IDLE,
      round_n = 1\<rparr>)
   \<and> update_weights ''http://a'' MNIST (Inr (WeightsBias [3] [3]))
     \<lparr>mnist_model_params = Some (WeightsBias [1] [1]),
      chest_x_ray_model_params = None,
      training_clients =
        [(''http://a'', \<lparr>client_url = ''http://a'', client_id = 1,
            status = CLIENT_IDLE, model_params = Some (WeightsBias [1] [1])\<rparr>)],
      server_status = IDLE,
      round_n = 1\<rparr>
   = (Response 200,
     \<lparr>mnist_model_params = Some (WeightsBias [3] [3]),
      chest_x_ray_model_params = None,
      training_clients =
        [(''http://a'', \<lparr>client_url = ''http://a'', client_id = 1,
            status = CLIENT_IDLE, model_params = Some (WeightsBias [3] [3])\<rparr>)],
      server_status = IDLE,
      round_n = 1\<rparr>)
   \<and> aggregation_passes
     [ReportResult ''http://a'' MNIST (WeightsBias [1] [1]),
      ReportResult ''http://a'' MNIST (WeightsBias [3] [3])]
     (final_state (fst (start_training MNIST [(''http://a'', Ack 200)]
        (register_client ''http://a'' (init_server [0] [0])))))
   = 2"
  by (simp add: coordinator_defs)

subsection \<open>General forms of the failing cases\<close>

text \<open>
  The evaluations of failing cases above are instances of the following: an aggregation
  with quorum and no finished participant raises and leaves the server in
  \<open>UPDATING_MODEL_PARAMS\<close>; a callback for an unknown participant changes nothing, and
  only \<open>PUT /model_params\<close> answers it with a client error; a training type outside the
  table advances the round counter and raises before anything is posted; a transport
  failure ends the dispatch with the participant in \<open>TRAINING_REQUESTED\<close>.
\<close>

lemma collect_mnist_none_finished:
  "finished_clients cs = [] \<Longrightarrow> collect_mnist cs = Inr ([], [], cs)"
  by (induction cs rule: collect_mnist.induct) (auto split: if_splits)

lemma collect_chest_none_finished:
  "finished_clients cs = [] \<Longrightarrow> collect_chest cs = ([], cs)"
  by (induction cs rule: collect_chest.induct) (auto split: if_splits)

lemma aggregation_without_finished_raises:
  assumes "can_update_central_model_params s"
    and "finished_clients (training_clients s) = []"
  shows "tt = MNIST \<or> tt = DETERMINISTIC_MNIST \<Longrightarrow>
           update_server_model_params tt s =
             Inl (RuntimeError, s\<lparr>server_status := UPDATING_MODEL_PARAMS\<rparr>)"
    and "update_server_model_params CHEST_X_RAY_PNEUMONIA s =
             Inl (ValueError, s\<lparr>server_status := UPDATING_MODEL_PARAMS\<rparr>)"
  using assms
  by (auto simp: update_server_model_params_def Let_def stack_mean_def
      collect_mnist_none_finished collect_chest_none_finished)

lemma unknown_client_callbacks:
  assumes "map_of (training_clients s) url = None"
  shows "update_weights url tt parsed s = (Response 401, s)"
    and "finish_round_route url GOSSIP_MNIST s = (Unhandled KeyError, s)"
    and "tt \<noteq> GOSSIP_MNIST \<Longrightarrow> finish_round_route url tt s = (Response 400, s)"
  using assms by (simp_all add: update_weights_def finish_round_route_def)

lemma start_training_outside_table:
  assumes "server_status s = IDLE" and "training_clients s \<noteq> []"
  shows "start_training (OTHER name) arrivals s =
           (Inl (AttributeError, s\<lparr>round_n := round_n s + 1\<rparr>), [])"
  using assms by (simp add: start_training_def select_config_def)

lemma transport_failure_unhandled:
  "do_training_client_request tt url TransportFailure s =
     Inl (ClientConnectionError, set_client_status url TRAINING_REQUESTED s)"
  by (simp add: do_training_client_request_def request_begin_def request_end_def)

end
